theory Spec2Isabelle
  imports Main
begin

section \<open>Values of the Python runtime\<close>

text \<open>
  The module \<^verbatim>\<open>mogwai/migrations/migrations/actions.py\<close> turns a detected schema change
  into a console line and two code fragments. Exceptions are values of the type
  \<open>error\<close>; a method that may raise returns \<open>error + 'a\<close>.
\<close>

datatype error =
    NotImplementedError
  | MogwaiMigrationException string
  | AttributeError string
  | SystemExit int
  | EOFError
  | EvalError string

text \<open>What \<^verbatim>\<open>eval(code, {}, {"datetime": datetime})\<close> does with a line of input: it returns
  a value, raises \<^verbatim>\<open>SyntaxError\<close> or \<^verbatim>\<open>NameError\<close> (which the caller catches), or raises
  something else (which the caller does not catch).\<close>

datatype eval_outcome = Value string | Caught string | Uncaught string

text \<open>A field definition is the triple \<^verbatim>\<open>(class path, args, kwargs)\<close>; a model definition
  is a dictionary of them.\<close>

type_synonym field_def = "string \<times> string list \<times> (string \<rightharpoonup> string)"
type_synonym model_def = "string \<rightharpoonup> field_def"

text \<open>
  The builtins \<^verbatim>\<open>repr\<close> (on strings) and \<^verbatim>\<open>eval\<close> are parameters of the model. So is the
  outcome of the calls \<^verbatim>\<open>self.triple_to_def(d)\<close> and \<^verbatim>\<open>self.triples_to_defs(m).items()\<close>:
  the code-generating methods make these calls, and the structure of what they build is
  stated for every outcome.
\<close>

record env =
  repr :: "string \<Rightarrow> string"
  eval :: "string \<Rightarrow> eval_outcome"
  triple_to_def :: "field_def \<Rightarrow> error + string"
  triples_to_defs :: "model_def \<Rightarrow> error + (string \<times> string) list"

text \<open>
  No class of the module defines \<^verbatim>\<open>triple_to_def\<close> or \<^verbatim>\<open>triples_to_defs\<close>: \<^verbatim>\<open>Action\<close> has
  \<^verbatim>\<open>forwards_code\<close>, \<^verbatim>\<open>backwards_code\<close>, \<^verbatim>\<open>add_forwards\<close>, \<^verbatim>\<open>add_backwards\<close> and
  \<^verbatim>\<open>console_line\<close>, and \<^verbatim>\<open>_NullIssuesField\<close> has \<^verbatim>\<open>deal_with_not_null_no_default\<close>,
  \<^verbatim>\<open>add_one_time_default\<close> and \<^verbatim>\<open>irreversable_code\<close>. On the module's own classes the
  attribute lookup therefore fails.
\<close>

definition module_env :: "(string \<Rightarrow> string) \<Rightarrow> (string \<Rightarrow> eval_outcome) \<Rightarrow> env" where
  "module_env r e =
     \<lparr> repr = r, eval = e,
       triple_to_def = (\<lambda>d. Inl (AttributeError ''triple_to_def'')),
       triples_to_defs = (\<lambda>m. Inl (AttributeError ''triples_to_defs'')) \<rparr>"

definition nl :: string where
  "nl = [CHR 0x0A]"

definition sq :: string where
  "sq = [CHR 0x27]"

text \<open>\<^verbatim>\<open>sep.join(xs)\<close>.\<close>

fun join :: "string \<Rightarrow> string list \<Rightarrow> string" where
  "join sep [] = []"
| "join sep [x] = x"
| "join sep (x # y # ys) = x @ sep @ join sep (y # ys)"

text \<open>\<^verbatim>\<open>str\<close> and \<^verbatim>\<open>repr\<close> of a list of strings, as \<^verbatim>\<open>%s\<close> and \<^verbatim>\<open>%r\<close> render it.\<close>

definition list_repr :: "env \<Rightarrow> string list \<Rightarrow> string" where
  "list_repr E xs = ''['' @ join '', '' (map (repr E) xs) @ '']''"

section \<open>Models and fields\<close>

text \<open>
  What the module reads of a model class: \<^verbatim>\<open>__name__\<close>, its \<^verbatim>\<open>str\<close>, whether it derives
  from \<^verbatim>\<open>Vertex\<close> or from \<^verbatim>\<open>Edge\<close> (the two element base classes of \<^verbatim>\<open>mogwai.models\<close>), and
  the class methods \<^verbatim>\<open>get_element_type()\<close> and \<^verbatim>\<open>get_label()\<close>. A class derives from one of
  the two base classes or from neither, never from both; every \<^verbatim>\<open>__init__\<close> tests
  \<^verbatim>\<open>issubclass(model, Vertex)\<close> first and \<^verbatim>\<open>issubclass(model, Edge)\<close> second.
\<close>

datatype model_base = Vertex | Edge | Neither

record model_class =
  class_name :: string
  class_str :: string
  base :: model_base
  get_element_type :: string
  get_label :: string

definition issubclass :: "model_class \<Rightarrow> model_base \<Rightarrow> bool" where
  "issubclass m b = (base m = b)"

text \<open>What the module reads of a property: its class (for
  \<^verbatim>\<open>isinstance(field, (String, Text))\<close>), \<^verbatim>\<open>name\<close>, \<^verbatim>\<open>column\<close>, \<^verbatim>\<open>required\<close>, \<^verbatim>\<open>default\<close>
  (\<open>None\<close> is Python's \<^verbatim>\<open>None\<close>) and \<^verbatim>\<open>blank\<close>.\<close>

datatype property_class = String | Text | OtherProperty

record field =
  property_class :: property_class
  name :: string
  column :: string
  required :: bool
  default_value :: "string option"
  blank :: bool

definition isinstance_String_Text :: "field \<Rightarrow> bool" where
  "isinstance_String_Text f = (property_class f = String \<or> property_class f = Text)"

section \<open>Instances\<close>

text \<open>The attributes every \<^verbatim>\<open>__init__\<close> sets.\<close>

record action_base =
  app_name :: string
  model :: model_class
  model_class_name :: string
  model_type :: string
  model_name :: string

text \<open>\<^verbatim>\<open>AddModel\<close>, \<^verbatim>\<open>DeleteModel\<close>.\<close>

record model_action = action_base +
  model_def :: model_def

text \<open>The attributes of \<^verbatim>\<open>_NullIssuesField\<close>: \<^verbatim>\<open>null_reason\<close> and
  \<^verbatim>\<open>issue_with_backward_migration\<close> are class attributes that \<^verbatim>\<open>ChangeField.__init__\<close> may
  shadow on the instance, \<^verbatim>\<open>irreversible\<close> is a class attribute (\<^verbatim>\<open>False\<close>) that
  \<^verbatim>\<open>deal_with_not_null_no_default\<close> may shadow on the instance.\<close>

record null_issues = action_base +
  null_reason :: string
  issue_with_backward_migration :: bool
  irreversible :: bool

text \<open>\<^verbatim>\<open>AddField\<close>, \<^verbatim>\<open>DeleteField\<close>.\<close>

record field_action = null_issues +
  field :: field
  field_def :: field_def

text \<open>\<^verbatim>\<open>ChangeField\<close>.\<close>

record change_action = null_issues +
  old_field :: field
  new_field :: field
  old_def :: field_def
  new_def :: field_def

text \<open>\<^verbatim>\<open>AddUnique\<close>, \<^verbatim>\<open>DeleteUnique\<close>, \<^verbatim>\<open>AddIndex\<close>, \<^verbatim>\<open>DeleteIndex\<close>, \<^verbatim>\<open>UpdateIndex\<close>.\<close>

record fields_action = action_base +
  fields_list :: "field list"

text \<open>An instance is the state together with its class.\<close>

datatype action =
    AddModel model_action
  | DeleteModel model_action
  | AddField field_action
  | DeleteField field_action
  | ChangeField change_action
  | AddUnique fields_action
  | DeleteUnique fields_action
  | AddIndex fields_action
  | DeleteIndex fields_action
  | UpdateIndex fields_action

section \<open>Console input and output\<close>

text \<open>\<^verbatim>\<open>stdin\<close> holds the lines still to be read, \<^verbatim>\<open>stdout\<close> what has been written.
  \<^verbatim>\<open>print\<close> writes a line; \<^verbatim>\<open>raw_input\<close> writes its prompt and reads a line, and raises
  \<^verbatim>\<open>EOFError\<close> when no line is left.\<close>

record io =
  stdin :: "string list"
  stdout :: "string list"

definition print :: "string \<Rightarrow> io \<Rightarrow> io" where
  "print s w = w\<lparr>stdout := stdout w @ [s @ nl]\<rparr>"

definition raw_input :: "string \<Rightarrow> io \<Rightarrow> error + (string \<times> io)" where
  "raw_input prompt w =
     (case stdin w of
        [] \<Rightarrow> Inl EOFError
      | l # ls \<Rightarrow> Inr (l, w\<lparr>stdin := ls, stdout := stdout w @ [prompt]\<rparr>))"

section \<open>Construction\<close>

text \<open>The block every \<^verbatim>\<open>__init__\<close> of the module repeats: \<^verbatim>\<open>model_type\<close> and
  \<^verbatim>\<open>model_name\<close> from the model class, or \<^verbatim>\<open>MogwaiMigrationException\<close>.\<close>

definition model_type_and_name :: "model_class \<Rightarrow> error + (string \<times> string)" where
  "model_type_and_name m =
     (if issubclass m Vertex then Inr (''vertex'', get_element_type m)
      else if issubclass m Edge then Inr (''edge'', get_label m)
      else Inl (MogwaiMigrationException (class_str m @ '' is Not a Vertex or Edge'')))"

text \<open>\<^verbatim>\<open>AddModel.__init__\<close>, inherited by \<^verbatim>\<open>DeleteModel\<close>.\<close>

definition AddModel_init :: "model_class \<Rightarrow> model_def \<Rightarrow> string \<Rightarrow> error + model_action" where
  "AddModel_init m d app =
     (case model_type_and_name m of
        Inl e \<Rightarrow> Inl e
      | Inr (t, n) \<Rightarrow>
          Inr \<lparr> app_name = app, model = m, model_class_name = class_name m,
                model_type = t, model_name = n, model_def = d \<rparr>)"

text \<open>\<^verbatim>\<open>AddUnique.__init__\<close> (inherited by \<^verbatim>\<open>DeleteUnique\<close>) and \<^verbatim>\<open>AddIndex.__init__\<close>
  (inherited by \<^verbatim>\<open>DeleteIndex\<close> and \<^verbatim>\<open>UpdateIndex\<close>).\<close>

definition AddUnique_init :: "model_class \<Rightarrow> field list \<Rightarrow> string \<Rightarrow> error + fields_action" where
  "AddUnique_init m fs app =
     (case model_type_and_name m of
        Inl e \<Rightarrow> Inl e
      | Inr (t, n) \<Rightarrow>
          Inr \<lparr> app_name = app, model = m, model_class_name = class_name m,
                model_type = t, model_name = n, fields_list = fs \<rparr>)"

definition AddIndex_init :: "model_class \<Rightarrow> field list \<Rightarrow> string \<Rightarrow> error + fields_action" where
  "AddIndex_init m fs app =
     (case model_type_and_name m of
        Inl e \<Rightarrow> Inl e
      | Inr (t, n) \<Rightarrow>
          Inr \<lparr> app_name = app, model = m, model_class_name = class_name m,
                model_type = t, model_name = n, fields_list = fs \<rparr>)"

section \<open>The dialog of \<^verbatim>\<open>_NullIssuesField\<close>\<close>

text \<open>\<^verbatim>\<open>field_def[2]['default'] = v\<close>.\<close>

definition set_default :: "field_def \<Rightarrow> string \<Rightarrow> field_def" where
  "set_default d v = (case d of (path, args, kwargs) \<Rightarrow> (path, args, kwargs(''default'' \<mapsto> v)))"

text \<open>The \<^verbatim>\<open>while True\<close> loop of \<^verbatim>\<open>add_one_time_default\<close>. Each round reads one line, so the
  lines left on \<^verbatim>\<open>stdin\<close> decrease.\<close>

function code_loop :: "env \<Rightarrow> io \<Rightarrow> error + (string \<times> io)" where
  "code_loop E w =
     (case raw_input '' >>> '' w of
        Inl e \<Rightarrow> Inl e
      | Inr (code, w1) \<Rightarrow>
          if code = [] then
            code_loop E (print '' ! Please enter some code, or 'exit' (with no quotes) to exit.'' w1)
          else if code = ''exit'' then Inl (SystemExit 1)
          else (case eval E code of
                  Caught msg \<Rightarrow> code_loop E (print ('' ! Invalid input: '' @ msg) w1)
                | Uncaught msg \<Rightarrow> Inl (EvalError msg)
                | Value result \<Rightarrow> Inr (result, w1)))"
  by pat_completeness auto
termination
  by (relation "measure (\<lambda>(E, w). length (stdin w))")
     (auto simp: raw_input_def print_def split: list.splits)

declare code_loop.simps [simp del]

text \<open>\<^verbatim>\<open>add_one_time_default\<close>: the line that would store the result in the field definition
  is commented out in the source, so the definition is handed back as it came.\<close>

definition add_one_time_default :: "env \<Rightarrow> field \<Rightarrow> field_def \<Rightarrow> io \<Rightarrow> error + (field_def \<times> io)" where
  "add_one_time_default E f d w =
     (let w1 = print '' ? Please enter Python code for your one-off default value.'' w;
          w2 = print '' ? The datetime module is available, so you can do e.g. datetime.date.today()'' w1
      in case code_loop E w2 of
           Inl e \<Rightarrow> Inl e
         | Inr (result, w3) \<Rightarrow> Inr (d, w3))"

text \<open>The \<^verbatim>\<open>while True\<close> loop of \<^verbatim>\<open>deal_with_not_null_no_default\<close>; it returns the choice it
  left the loop with.\<close>

function choice_loop :: "bool \<Rightarrow> io \<Rightarrow> error + (string \<times> io)" where
  "choice_loop iwbm w =
     (case raw_input '' ? Please select a choice: '' w of
        Inl e \<Rightarrow> Inl e
      | Inr (choice, w1) \<Rightarrow>
          if choice = ''1'' then Inl (SystemExit 1)
          else if choice = ''2'' then Inr (choice, w1)
          else if choice = ''3'' \<and> iwbm then Inr (choice, w1)
          else choice_loop iwbm (print '' ! Invalid choice.'' w1))"
  by pat_completeness auto
termination
  by (relation "measure (\<lambda>(b, w). length (stdin w))")
     (auto simp: raw_input_def print_def split: list.splits)

declare choice_loop.simps [simp del]

text \<open>The lines printed before the loop.\<close>

definition announce :: "'a null_issues_scheme \<Rightarrow> field \<Rightarrow> io \<Rightarrow> io" where
  "announce self f w =
     (let w1 = print ('' ? The field '' @ sq @ model_class_name self @ ''.'' @ name f @ sq
                       @ '' does not have a default specified, yet is NOT NULL.'') w;
          w2 = print ('' ? Since you are '' @ null_reason self @ '', you MUST specify a default'') w1;
          w3 = print '' ? value to use for existing rows. Would you like to:'' w2;
          w4 = print ('' ?  1. Quit now''
                       @ (if issue_with_backward_migration self then ''.''
                          else '', and add a default to the field in models.py'')) w3;
          w5 = print '' ?  2. Specify a one-off value to use for existing columns now'' w4
      in if issue_with_backward_migration self
         then print '' ?  3. Disable the backwards migration by raising an exception; you can edit the migration to fix it later'' w5
         else w5)"

text \<open>\<^verbatim>\<open>deal_with_not_null_no_default\<close>: it may change the instance (\<^verbatim>\<open>irreversible\<close>) and the
  field definition it was given, and it reads and writes the console.\<close>

definition deal_with_not_null_no_default ::
  "env \<Rightarrow> 'a null_issues_scheme \<Rightarrow> field \<Rightarrow> field_def \<Rightarrow> io
     \<Rightarrow> error + ('a null_issues_scheme \<times> field_def \<times> io)" where
  "deal_with_not_null_no_default E self f d w =
     (if isinstance_String_Text f \<and> blank f then Inr (self, set_default d (repr E ''''), w)
      else
        case choice_loop (issue_with_backward_migration self) (announce self f w) of
          Inl e \<Rightarrow> Inl e
        | Inr (choice, w1) \<Rightarrow>
            if choice = ''2'' then
              (case add_one_time_default E f d w1 of
                 Inl e \<Rightarrow> Inl e
               | Inr (d1, w2) \<Rightarrow> Inr (self, d1, w2))
            else if choice = ''3'' then Inr (self\<lparr>irreversible := True\<rparr>, d, w1)
            else Inr (self, d, w1))"

text \<open>\<^verbatim>\<open>AddField.__init__\<close>, inherited by \<^verbatim>\<open>DeleteField\<close>. The class attributes
  \<^verbatim>\<open>null_reason\<close> and \<^verbatim>\<open>issue_with_backward_migration\<close> of the class being instantiated are
  arguments; \<^verbatim>\<open>self.field_def\<close> is the object the dialog was given, so it shows what the
  dialog stored in it.\<close>

definition AddField_init ::
  "env \<Rightarrow> string \<Rightarrow> bool \<Rightarrow> model_class \<Rightarrow> field \<Rightarrow> field_def \<Rightarrow> string \<Rightarrow> io
     \<Rightarrow> error + (field_action \<times> io)" where
  "AddField_init E reason iwbm m f d app w =
     (case model_type_and_name m of
        Inl e \<Rightarrow> Inl e
      | Inr (t, n) \<Rightarrow>
          let self = \<lparr> app_name = app, model = m, model_class_name = class_name m,
                       model_type = t, model_name = n,
                       null_reason = reason, issue_with_backward_migration = iwbm,
                       irreversible = False, field = f, field_def = d \<rparr>;
              is_required = required f;
              has_default = (default_value f \<noteq> None)
          in if \<not> is_required \<and> \<not> has_default then
               (case deal_with_not_null_no_default E self f d w of
                  Inl e \<Rightarrow> Inl e
                | Inr (self1, d1, w1) \<Rightarrow> Inr (self1\<lparr>field_def := d1\<rparr>, w1))
             else Inr (self, w))"

text \<open>\<^verbatim>\<open>ChangeField.__init__\<close>.\<close>

definition ChangeField_init ::
  "env \<Rightarrow> model_class \<Rightarrow> field \<Rightarrow> field \<Rightarrow> field_def \<Rightarrow> field_def \<Rightarrow> string \<Rightarrow> io
     \<Rightarrow> error + (change_action \<times> io)" where
  "ChangeField_init E m old_f new_f old_d new_d app w =
     (case model_type_and_name m of
        Inl e \<Rightarrow> Inl e
      | Inr (t, n) \<Rightarrow>
          let self = \<lparr> app_name = app, model = m, model_class_name = class_name m,
                       model_type = t, model_name = n,
                       null_reason = ''making this field non-nullable'',
                       issue_with_backward_migration = False, irreversible = False,
                       old_field = old_f, new_field = new_f, old_def = old_d, new_def = new_d \<rparr>;
              new_default = (default_value new_f \<noteq> None);
              old_default = (default_value old_f \<noteq> None)
          in (case (if required old_f \<and> \<not> required new_f \<and> \<not> new_default then
                     (case deal_with_not_null_no_default E self new_f new_d w of
                        Inl e \<Rightarrow> Inl e
                      | Inr (self1, d1, w1) \<Rightarrow> Inr (self1\<lparr>new_def := d1\<rparr>, w1))
                   else Inr (self, w)) of
               Inl e \<Rightarrow> Inl e
             | Inr (self2, w2) \<Rightarrow>
                 if \<not> required old_f \<and> required new_f \<and> \<not> old_default then
                   (let self3 = self2\<lparr>null_reason := ''making this field nullable''\<rparr>
                                     \<lparr>issue_with_backward_migration := True\<rparr>
                    in case deal_with_not_null_no_default E self3 old_f (old_def self3) w2 of
                         Inl e \<Rightarrow> Inl e
                       | Inr (self4, d4, w4) \<Rightarrow> Inr (self4\<lparr>old_def := d4\<rparr>, w4))
                 else Inr (self2, w2)))"

section \<open>Templates\<close>

text \<open>Each template is the function that \<^verbatim>\<open>TEMPLATE % {...}\<close> computes from the keys the
  template mentions: \<^verbatim>\<open>%(key)s\<close> splices a string in as it is, \<^verbatim>\<open>%(key)r\<close> its \<^verbatim>\<open>repr\<close>, and a
  list of strings is rendered by \<open>list_repr\<close> either way. The text is indented as in the
  source, and a template sliced with \<^verbatim>\<open>[1:]\<close> has lost its leading newline.\<close>

definition dq :: string where
  "dq = [CHR 0x22]"

definition AddModel_FORWARDS_TEMPLATE :: "env \<Rightarrow> string \<Rightarrow> string \<Rightarrow> string \<Rightarrow> string \<Rightarrow> string \<Rightarrow> string" where
  "AddModel_FORWARDS_TEMPLATE E mt mcn mn al fds =
      ''        # Adding '' @ mt @ '' '' @ sq @ mcn @ sq @ nl @
      ''        db.create_'' @ mt @ ''('' @ repr E mn @ '', ('' @ nl @
      ''            '' @ fds @ nl @
      ''        ))'' @ nl @
      ''        db.send_create_signal('' @ mt @ '', '' @ repr E al @ '', ['' @ repr E mcn @ ''])'' @ nl"

definition AddModel_BACKWARDS_TEMPLATE :: "env \<Rightarrow> string \<Rightarrow> string \<Rightarrow> string \<Rightarrow> string" where
  "AddModel_BACKWARDS_TEMPLATE E mt mcn mn =
      ''        # Deleting '' @ mt @ '' '' @ sq @ mcn @ sq @ nl @
      ''        db.delete_'' @ mt @ ''('' @ repr E mn @ '')'' @ nl"

definition NullIssuesField_IRREVERSIBLE_TEMPLATE :: "env \<Rightarrow> string \<Rightarrow> string \<Rightarrow> string" where
  "NullIssuesField_IRREVERSIBLE_TEMPLATE E mcn fn =
      nl @
      ''        # User chose to not deal with backwards NULL issues for '' @ sq @ mcn @ ''.'' @ fn @ sq @ nl @
      ''        raise RuntimeError('' @ dq @ ''Cannot reverse this migration. '' @ sq @ mcn @ ''.'' @ fn @ sq @ '' and its values cannot be restored.'' @ dq @ '')'' @ nl @
      nl @
      ''        # The following code is provided here to aid in writing a correct migration''"

definition AddField_FORWARDS_TEMPLATE :: "env \<Rightarrow> string \<Rightarrow> string \<Rightarrow> string \<Rightarrow> string \<Rightarrow> string" where
  "AddField_FORWARDS_TEMPLATE E mcn mn fn fd =
      ''        # Adding field '' @ sq @ mcn @ ''.'' @ fn @ sq @ nl @
      ''        db.add_property('' @ repr E mn @ '', '' @ repr E fn @ '','' @ nl @
      ''                        '' @ fd @ '','' @ nl @
      ''                        keep_default=False)'' @ nl"

definition AddField_BACKWARDS_TEMPLATE :: "env \<Rightarrow> string \<Rightarrow> string \<Rightarrow> string \<Rightarrow> string \<Rightarrow> string" where
  "AddField_BACKWARDS_TEMPLATE E mcn mn fn fc =
      ''        # Deleting field '' @ sq @ mcn @ ''.'' @ fn @ sq @ nl @
      ''        db.delete_property('' @ repr E mn @ '', '' @ repr E fc @ '')'' @ nl"

definition ChangeField_FORWARDS_TEMPLATE :: "env \<Rightarrow> string \<Rightarrow> string \<Rightarrow> string \<Rightarrow> string \<Rightarrow> string \<Rightarrow> string" where
  "ChangeField_FORWARDS_TEMPLATE E mcn mn fn fc fd =
      nl @
      ''        # Changing field '' @ sq @ mcn @ ''.'' @ fn @ sq @ nl @
      ''        db.alter_property('' @ repr E mn @ '', '' @ repr E fc @ '', '' @ fd @ '')''"

definition ChangeField_RENAME_TEMPLATE :: "env \<Rightarrow> string \<Rightarrow> string \<Rightarrow> string \<Rightarrow> string \<Rightarrow> string \<Rightarrow> string" where
  "ChangeField_RENAME_TEMPLATE E mcn mn fn oc nc =
      nl @
      ''        # Renaming property for '' @ sq @ mcn @ ''.'' @ fn @ sq @ '' to match new field type.'' @ nl @
      ''        db.rename_property('' @ repr E mn @ '', '' @ repr E oc @ '', '' @ repr E nc @ '')''"

definition AddUnique_FORWARDS_TEMPLATE :: "env \<Rightarrow> string \<Rightarrow> string \<Rightarrow> string list \<Rightarrow> string list \<Rightarrow> string" where
  "AddUnique_FORWARDS_TEMPLATE E mcn mn fs fns =
      ''        # Adding unique constraint on '' @ sq @ mcn @ sq @ '', fields '' @ list_repr E fns @ nl @
      ''        db.create_unique('' @ repr E mn @ '', '' @ list_repr E fs @ '')'' @ nl"

definition AddUnique_BACKWARDS_TEMPLATE :: "env \<Rightarrow> string \<Rightarrow> string \<Rightarrow> string list \<Rightarrow> string list \<Rightarrow> string" where
  "AddUnique_BACKWARDS_TEMPLATE E mcn mn fs fns =
      ''        # Removing unique constraint on '' @ sq @ mcn @ sq @ '', fields '' @ list_repr E fns @ nl @
      ''        db.delete_unique('' @ repr E mn @ '', '' @ list_repr E fs @ '')'' @ nl"

definition AddIndex_FORWARDS_TEMPLATE :: "env \<Rightarrow> string \<Rightarrow> string \<Rightarrow> string list \<Rightarrow> string list \<Rightarrow> string" where
  "AddIndex_FORWARDS_TEMPLATE E mcn mn fs fns =
      ''        # Adding index on '' @ sq @ mcn @ sq @ '', fields '' @ list_repr E fns @ nl @
      ''        db.create_index('' @ repr E mn @ '', '' @ list_repr E fs @ '')'' @ nl"

definition AddIndex_BACKWARDS_TEMPLATE :: "env \<Rightarrow> string \<Rightarrow> string \<Rightarrow> string list \<Rightarrow> string list \<Rightarrow> string" where
  "AddIndex_BACKWARDS_TEMPLATE E mcn mn fs fns =
      ''        # Removing index on '' @ sq @ mcn @ sq @ '', fields '' @ list_repr E fns @ nl @
      ''        db.delete_index('' @ repr E mn @ '', '' @ list_repr E fs @ '')'' @ nl"

definition AddIndex_UPDATE_TEMPLATE :: "env \<Rightarrow> string \<Rightarrow> string \<Rightarrow> string list \<Rightarrow> string list \<Rightarrow> string" where
  "AddIndex_UPDATE_TEMPLATE E mcn mn fs fns =
      ''        # Updating index on '' @ sq @ mcn @ sq @ '', fields '' @ list_repr E fns @ nl @
      ''        db.update_index('' @ repr E mn @ '', '' @ list_repr E fs @ '')'' @ nl"

section \<open>The methods of the actions\<close>

subsection \<open>\<^verbatim>\<open>AddModel\<close> and \<^verbatim>\<open>DeleteModel\<close>\<close>

definition AddModel_console_line :: "model_action \<Rightarrow> string" where
  "AddModel_console_line self = '' + Added model '' @ app_name self @ ''.'' @ model_name self"

definition AddModel_forwards_code :: "env \<Rightarrow> model_action \<Rightarrow> error + string" where
  "AddModel_forwards_code E self =
     (case triples_to_defs E (model_def self) of
        Inl e \<Rightarrow> Inl e
      | Inr items \<Rightarrow>
          let field_defs =
                join ('','' @ nl @ ''            '')
                  (map (\<lambda>(name, defn). ''('' @ repr E name @ '', '' @ defn @ '')'') items) @ '',''
          in Inr (AddModel_FORWARDS_TEMPLATE E (model_type self) (model_class_name self)
                    (model_name self) (app_name self) field_defs))"

definition AddModel_backwards_code :: "env \<Rightarrow> model_action \<Rightarrow> error + string" where
  "AddModel_backwards_code E self =
     Inr (AddModel_BACKWARDS_TEMPLATE E (model_type self) (model_class_name self) (model_name self))"

definition DeleteModel_console_line :: "model_action \<Rightarrow> string" where
  "DeleteModel_console_line self =
     '' - Deleted model '' @ app_name self @ ''.'' @ model_class_name self"

definition DeleteModel_forwards_code :: "env \<Rightarrow> model_action \<Rightarrow> error + string" where
  "DeleteModel_forwards_code E self = AddModel_backwards_code E self"

definition DeleteModel_backwards_code :: "env \<Rightarrow> model_action \<Rightarrow> error + string" where
  "DeleteModel_backwards_code E self = AddModel_forwards_code E self"

subsection \<open>\<^verbatim>\<open>_NullIssuesField.irreversable_code\<close>\<close>

definition irreversable_code :: "env \<Rightarrow> 'a null_issues_scheme \<Rightarrow> field \<Rightarrow> string" where
  "irreversable_code E self f =
     NullIssuesField_IRREVERSIBLE_TEMPLATE E (model_class_name self) (name f)"

subsection \<open>\<^verbatim>\<open>AddField\<close> and \<^verbatim>\<open>DeleteField\<close>\<close>

definition AddField_console_line :: "field_action \<Rightarrow> string" where
  "AddField_console_line self =
     '' + Added field '' @ name (field self) @ '' on '' @ app_name self @ ''.''
       @ model_class_name self"

definition AddField_forwards_code :: "env \<Rightarrow> field_action \<Rightarrow> error + string" where
  "AddField_forwards_code E self =
     (case triple_to_def E (field_def self) of
        Inl e \<Rightarrow> Inl e
      | Inr fd \<Rightarrow>
          Inr (AddField_FORWARDS_TEMPLATE E (model_class_name self) (model_name self)
                 (name (field self)) fd))"

definition AddField_backwards_code :: "env \<Rightarrow> field_action \<Rightarrow> error + string" where
  "AddField_backwards_code E self =
     Inr (AddField_BACKWARDS_TEMPLATE E (model_class_name self) (model_name self)
            (name (field self)) (column (field self)))"

definition DeleteField_console_line :: "field_action \<Rightarrow> string" where
  "DeleteField_console_line self =
     '' - Deleted field '' @ name (field self) @ '' on '' @ app_name self @ ''.''
       @ model_class_name self"

definition DeleteField_forwards_code :: "env \<Rightarrow> field_action \<Rightarrow> error + string" where
  "DeleteField_forwards_code E self = AddField_backwards_code E self"

text \<open>In \<^verbatim>\<open>a + b\<close> the left operand is built first; building it raises nothing, so an
  exception of the right operand is the exception of the sum.\<close>

definition DeleteField_backwards_code :: "env \<Rightarrow> field_action \<Rightarrow> error + string" where
  "DeleteField_backwards_code E self =
     (if \<not> irreversible self then AddField_forwards_code E self
      else (case AddField_forwards_code E self of
              Inl e \<Rightarrow> Inl e
            | Inr code \<Rightarrow> Inr (irreversable_code E self (field self) @ code)))"

subsection \<open>\<^verbatim>\<open>ChangeField\<close>\<close>

definition ChangeField_console_line :: "change_action \<Rightarrow> string" where
  "ChangeField_console_line self =
     '' ~ Changed field '' @ name (new_field self) @ '' on '' @ app_name self @ ''.''
       @ model_class_name self"

text \<open>\<^verbatim>\<open>ChangeField._code(self, old_field, new_field, new_def)\<close>: the test reads the columns of
  \<^verbatim>\<open>self.old_field\<close> and \<^verbatim>\<open>self.new_field\<close>, the templates are filled from the arguments.\<close>

definition ChangeField_code ::
  "env \<Rightarrow> change_action \<Rightarrow> field \<Rightarrow> field \<Rightarrow> field_def \<Rightarrow> error + string" where
  "ChangeField_code E self old_f new_f new_d =
     (let output = [];
          output1 =
            (if column (old_field self) \<noteq> column (new_field self) then
               output @ ChangeField_RENAME_TEMPLATE E (model_class_name self) (model_name self)
                          (name new_f) (column old_f) (column new_f)
             else output)
      in case triple_to_def E new_d of
           Inl e \<Rightarrow> Inl e
         | Inr fd \<Rightarrow>
             Inr (output1 @ ChangeField_FORWARDS_TEMPLATE E (model_class_name self)
                              (model_name self) (name new_f) (column new_f) fd))"

definition ChangeField_forwards_code :: "env \<Rightarrow> change_action \<Rightarrow> error + string" where
  "ChangeField_forwards_code E self =
     ChangeField_code E self (old_field self) (new_field self) (new_def self)"

definition ChangeField_backwards_code :: "env \<Rightarrow> change_action \<Rightarrow> error + string" where
  "ChangeField_backwards_code E self =
     (case ChangeField_code E self (new_field self) (old_field self) (old_def self) of
        Inl e \<Rightarrow> Inl e
      | Inr change_code \<Rightarrow>
          if \<not> irreversible self then Inr change_code
          else Inr (irreversable_code E self (old_field self) @ change_code))"

subsection \<open>\<^verbatim>\<open>AddUnique\<close> and \<^verbatim>\<open>DeleteUnique\<close>\<close>

definition AddUnique_console_line :: "env \<Rightarrow> fields_action \<Rightarrow> string" where
  "AddUnique_console_line E self =
     '' + Added unique constraint for '' @ list_repr E (map name (fields_list self))
       @ '' on '' @ app_name self @ ''.'' @ model_class_name self"

definition AddUnique_forwards_code :: "env \<Rightarrow> fields_action \<Rightarrow> error + string" where
  "AddUnique_forwards_code E self =
     Inr (AddUnique_FORWARDS_TEMPLATE E (model_class_name self) (model_name self)
            (map column (fields_list self)) (map name (fields_list self)))"

definition AddUnique_backwards_code :: "env \<Rightarrow> fields_action \<Rightarrow> error + string" where
  "AddUnique_backwards_code E self =
     Inr (AddUnique_BACKWARDS_TEMPLATE E (model_class_name self) (model_name self)
            (map column (fields_list self)) (map name (fields_list self)))"

definition DeleteUnique_console_line :: "env \<Rightarrow> fields_action \<Rightarrow> string" where
  "DeleteUnique_console_line E self =
     '' - Deleted unique constraint for '' @ list_repr E (map name (fields_list self))
       @ '' on '' @ app_name self @ ''.'' @ model_class_name self"

definition DeleteUnique_forwards_code :: "env \<Rightarrow> fields_action \<Rightarrow> error + string" where
  "DeleteUnique_forwards_code E self = AddUnique_backwards_code E self"

definition DeleteUnique_backwards_code :: "env \<Rightarrow> fields_action \<Rightarrow> error + string" where
  "DeleteUnique_backwards_code E self = AddUnique_forwards_code E self"

subsection \<open>\<^verbatim>\<open>AddIndex\<close>, \<^verbatim>\<open>DeleteIndex\<close> and \<^verbatim>\<open>UpdateIndex\<close>\<close>

definition AddIndex_console_line :: "env \<Rightarrow> fields_action \<Rightarrow> string" where
  "AddIndex_console_line E self =
     '' + Added index for '' @ list_repr E (map name (fields_list self))
       @ '' on '' @ app_name self @ ''.'' @ model_class_name self"

definition AddIndex_forwards_code :: "env \<Rightarrow> fields_action \<Rightarrow> error + string" where
  "AddIndex_forwards_code E self =
     Inr (AddIndex_FORWARDS_TEMPLATE E (model_class_name self) (model_name self)
            (map column (fields_list self)) (map name (fields_list self)))"

definition AddIndex_backwards_code :: "env \<Rightarrow> fields_action \<Rightarrow> error + string" where
  "AddIndex_backwards_code E self =
     Inr (AddIndex_BACKWARDS_TEMPLATE E (model_class_name self) (model_name self)
            (map column (fields_list self)) (map name (fields_list self)))"

definition DeleteIndex_console_line :: "env \<Rightarrow> fields_action \<Rightarrow> string" where
  "DeleteIndex_console_line E self =
     '' + Deleted index for '' @ list_repr E (map name (fields_list self))
       @ '' on '' @ app_name self @ ''.'' @ model_class_name self"

definition DeleteIndex_forwards_code :: "env \<Rightarrow> fields_action \<Rightarrow> error + string" where
  "DeleteIndex_forwards_code E self = AddIndex_backwards_code E self"

definition DeleteIndex_backwards_code :: "env \<Rightarrow> fields_action \<Rightarrow> error + string" where
  "DeleteIndex_backwards_code E self = AddIndex_forwards_code E self"

definition UpdateIndex_console_line :: "env \<Rightarrow> fields_action \<Rightarrow> string" where
  "UpdateIndex_console_line E self =
     '' + Updated index for '' @ list_repr E (map name (fields_list self))
       @ '' on '' @ app_name self @ ''.'' @ model_class_name self"

definition UpdateIndex_forwards_code :: "env \<Rightarrow> fields_action \<Rightarrow> error + string" where
  "UpdateIndex_forwards_code E self =
     Inr (AddIndex_UPDATE_TEMPLATE E (model_class_name self) (model_name self)
            (map column (fields_list self)) (map name (fields_list self)))"

definition UpdateIndex_backwards_code :: "env \<Rightarrow> fields_action \<Rightarrow> error + string" where
  "UpdateIndex_backwards_code E self =
     Inr (AddIndex_UPDATE_TEMPLATE E (model_class_name self) (model_name self)
            (map column (fields_list self)) (map name (fields_list self)))"

subsection \<open>Method resolution\<close>

text \<open>A call \<^verbatim>\<open>a.forwards_code()\<close> runs the method of the class of \<^verbatim>\<open>a\<close>. Every class of the
  module overrides the three methods that \<^verbatim>\<open>Action\<close> leaves raising
  \<^verbatim>\<open>NotImplementedError\<close>.\<close>

fun forwards_code :: "env \<Rightarrow> action \<Rightarrow> error + string" where
  "forwards_code E (AddModel self) = AddModel_forwards_code E self"
| "forwards_code E (DeleteModel self) = DeleteModel_forwards_code E self"
| "forwards_code E (AddField self) = AddField_forwards_code E self"
| "forwards_code E (DeleteField self) = DeleteField_forwards_code E self"
| "forwards_code E (ChangeField self) = ChangeField_forwards_code E self"
| "forwards_code E (AddUnique self) = AddUnique_forwards_code E self"
| "forwards_code E (DeleteUnique self) = DeleteUnique_forwards_code E self"
| "forwards_code E (AddIndex self) = AddIndex_forwards_code E self"
| "forwards_code E (DeleteIndex self) = DeleteIndex_forwards_code E self"
| "forwards_code E (UpdateIndex self) = UpdateIndex_forwards_code E self"

fun backwards_code :: "env \<Rightarrow> action \<Rightarrow> error + string" where
  "backwards_code E (AddModel self) = AddModel_backwards_code E self"
| "backwards_code E (DeleteModel self) = DeleteModel_backwards_code E self"
| "backwards_code E (AddField self) = AddField_backwards_code E self"
| "backwards_code E (DeleteField self) = DeleteField_backwards_code E self"
| "backwards_code E (ChangeField self) = ChangeField_backwards_code E self"
| "backwards_code E (AddUnique self) = AddUnique_backwards_code E self"
| "backwards_code E (DeleteUnique self) = DeleteUnique_backwards_code E self"
| "backwards_code E (AddIndex self) = AddIndex_backwards_code E self"
| "backwards_code E (DeleteIndex self) = DeleteIndex_backwards_code E self"
| "backwards_code E (UpdateIndex self) = UpdateIndex_backwards_code E self"

fun console_line :: "env \<Rightarrow> action \<Rightarrow> error + string" where
  "console_line E (AddModel self) = Inr (AddModel_console_line self)"
| "console_line E (DeleteModel self) = Inr (DeleteModel_console_line self)"
| "console_line E (AddField self) = Inr (AddField_console_line self)"
| "console_line E (DeleteField self) = Inr (DeleteField_console_line self)"
| "console_line E (ChangeField self) = Inr (ChangeField_console_line self)"
| "console_line E (AddUnique self) = Inr (AddUnique_console_line E self)"
| "console_line E (DeleteUnique self) = Inr (DeleteUnique_console_line E self)"
| "console_line E (AddIndex self) = Inr (AddIndex_console_line E self)"
| "console_line E (DeleteIndex self) = Inr (DeleteIndex_console_line E self)"
| "console_line E (UpdateIndex self) = Inr (UpdateIndex_console_line E self)"

text \<open>The class attributes \<^verbatim>\<open>prepend_forwards\<close> and \<^verbatim>\<open>prepend_backwards\<close>: \<^verbatim>\<open>False\<close> in
  \<^verbatim>\<open>Action\<close>; \<^verbatim>\<open>AddUnique\<close> and \<^verbatim>\<open>AddIndex\<close> set \<^verbatim>\<open>prepend_backwards\<close>; \<^verbatim>\<open>DeleteUnique\<close> sets
  both; \<^verbatim>\<open>DeleteIndex\<close> and \<^verbatim>\<open>UpdateIndex\<close> set neither and find those of \<^verbatim>\<open>AddIndex\<close>, their
  base class.\<close>

fun prepend_forwards :: "action \<Rightarrow> bool" where
  "prepend_forwards (DeleteUnique self) = True"
| "prepend_forwards a = False"

fun prepend_backwards :: "action \<Rightarrow> bool" where
  "prepend_backwards (AddUnique self) = True"
| "prepend_backwards (DeleteUnique self) = False"
| "prepend_backwards (AddIndex self) = True"
| "prepend_backwards (DeleteIndex self) = True"
| "prepend_backwards (UpdateIndex self) = True"
| "prepend_backwards a = False"

text \<open>\<^verbatim>\<open>Action.add_forwards\<close> and \<^verbatim>\<open>Action.add_backwards\<close> change the list they are given;
  the model returns the changed list. \<^verbatim>\<open>insert(0, x)\<close> puts \<^verbatim>\<open>x\<close> in front.\<close>

definition add_forwards :: "env \<Rightarrow> action \<Rightarrow> string list \<Rightarrow> error + string list" where
  "add_forwards E self forwards =
     (if prepend_forwards self then
        (case forwards_code E self of
           Inl e \<Rightarrow> Inl e
         | Inr code \<Rightarrow> Inr (code # forwards))
      else
        (case forwards_code E self of
           Inl e \<Rightarrow> Inl e
         | Inr code \<Rightarrow> Inr (forwards @ [code])))"

definition add_backwards :: "env \<Rightarrow> action \<Rightarrow> string list \<Rightarrow> error + string list" where
  "add_backwards E self backwards =
     (if prepend_backwards self then
        (case backwards_code E self of
           Inl e \<Rightarrow> Inl e
         | Inr code \<Rightarrow> Inr (code # backwards))
      else
        (case backwards_code E self of
           Inl e \<Rightarrow> Inl e
         | Inr code \<Rightarrow> Inr (backwards @ [code])))"

text \<open>Instantiating each class.\<close>

definition new_AddModel :: "model_class \<Rightarrow> model_def \<Rightarrow> string \<Rightarrow> error + action" where
  "new_AddModel m d app = map_sum id AddModel (AddModel_init m d app)"

definition new_DeleteModel :: "model_class \<Rightarrow> model_def \<Rightarrow> string \<Rightarrow> error + action" where
  "new_DeleteModel m d app = map_sum id DeleteModel (AddModel_init m d app)"

definition new_AddField ::
  "env \<Rightarrow> model_class \<Rightarrow> field \<Rightarrow> field_def \<Rightarrow> string \<Rightarrow> io \<Rightarrow> error + (action \<times> io)" where
  "new_AddField E m f d app w =
     map_sum id (map_prod AddField id) (AddField_init E ''adding this field'' False m f d app w)"

definition new_DeleteField ::
  "env \<Rightarrow> model_class \<Rightarrow> field \<Rightarrow> field_def \<Rightarrow> string \<Rightarrow> io \<Rightarrow> error + (action \<times> io)" where
  "new_DeleteField E m f d app w =
     map_sum id (map_prod DeleteField id)
       (AddField_init E ''removing this field'' True m f d app w)"

definition new_ChangeField ::
  "env \<Rightarrow> model_class \<Rightarrow> field \<Rightarrow> field \<Rightarrow> field_def \<Rightarrow> field_def \<Rightarrow> string \<Rightarrow> io
     \<Rightarrow> error + (action \<times> io)" where
  "new_ChangeField E m old_f new_f old_d new_d app w =
     map_sum id (map_prod ChangeField id) (ChangeField_init E m old_f new_f old_d new_d app w)"

definition new_AddUnique :: "model_class \<Rightarrow> field list \<Rightarrow> string \<Rightarrow> error + action" where
  "new_AddUnique m fs app = map_sum id AddUnique (AddUnique_init m fs app)"

definition new_DeleteUnique :: "model_class \<Rightarrow> field list \<Rightarrow> string \<Rightarrow> error + action" where
  "new_DeleteUnique m fs app = map_sum id DeleteUnique (AddUnique_init m fs app)"

definition new_AddIndex :: "model_class \<Rightarrow> field list \<Rightarrow> string \<Rightarrow> error + action" where
  "new_AddIndex m fs app = map_sum id AddIndex (AddIndex_init m fs app)"

definition new_DeleteIndex :: "model_class \<Rightarrow> field list \<Rightarrow> string \<Rightarrow> error + action" where
  "new_DeleteIndex m fs app = map_sum id DeleteIndex (AddIndex_init m fs app)"

definition new_UpdateIndex :: "model_class \<Rightarrow> field list \<Rightarrow> string \<Rightarrow> error + action" where
  "new_UpdateIndex m fs app = map_sum id UpdateIndex (AddIndex_init m fs app)"

section \<open>Notions used in the statements\<close>

text \<open>Attribute access on an instance of any of the classes.\<close>

fun model_type_of :: "action \<Rightarrow> string" where
  "model_type_of (AddModel self) = model_type self"
| "model_type_of (DeleteModel self) = model_type self"
| "model_type_of (AddField self) = model_type self"
| "model_type_of (DeleteField self) = model_type self"
| "model_type_of (ChangeField self) = model_type self"
| "model_type_of (AddUnique self) = model_type self"
| "model_type_of (DeleteUnique self) = model_type self"
| "model_type_of (AddIndex self) = model_type self"
| "model_type_of (DeleteIndex self) = model_type self"
| "model_type_of (UpdateIndex self) = model_type self"

fun model_name_of :: "action \<Rightarrow> string" where
  "model_name_of (AddModel self) = model_name self"
| "model_name_of (DeleteModel self) = model_name self"
| "model_name_of (AddField self) = model_name self"
| "model_name_of (DeleteField self) = model_name self"
| "model_name_of (ChangeField self) = model_name self"
| "model_name_of (AddUnique self) = model_name self"
| "model_name_of (DeleteUnique self) = model_name self"
| "model_name_of (AddIndex self) = model_name self"
| "model_name_of (DeleteIndex self) = model_name self"
| "model_name_of (UpdateIndex self) = model_name self"

text \<open>A constructor call: the class and the arguments besides the model class and the
  application name. The constructors that run no dialog leave the console as it is.\<close>

datatype call =
    Call_AddModel model_def
  | Call_DeleteModel model_def
  | Call_AddField field field_def
  | Call_DeleteField field field_def
  | Call_ChangeField field field field_def field_def
  | Call_AddUnique "field list"
  | Call_DeleteUnique "field list"
  | Call_AddIndex "field list"
  | Call_DeleteIndex "field list"
  | Call_UpdateIndex "field list"

definition no_dialog :: "io \<Rightarrow> error + action \<Rightarrow> error + (action \<times> io)" where
  "no_dialog w r = (case r of Inl e \<Rightarrow> Inl e | Inr a \<Rightarrow> Inr (a, w))"

fun construct :: "env \<Rightarrow> call \<Rightarrow> model_class \<Rightarrow> string \<Rightarrow> io \<Rightarrow> error + (action \<times> io)" where
  "construct E (Call_AddModel d) m app w = no_dialog w (new_AddModel m d app)"
| "construct E (Call_DeleteModel d) m app w = no_dialog w (new_DeleteModel m d app)"
| "construct E (Call_AddField f d) m app w = new_AddField E m f d app w"
| "construct E (Call_DeleteField f d) m app w = new_DeleteField E m f d app w"
| "construct E (Call_ChangeField old_f new_f old_d new_d) m app w =
     new_ChangeField E m old_f new_f old_d new_d app w"
| "construct E (Call_AddUnique fs) m app w = no_dialog w (new_AddUnique m fs app)"
| "construct E (Call_DeleteUnique fs) m app w = no_dialog w (new_DeleteUnique m fs app)"
| "construct E (Call_AddIndex fs) m app w = no_dialog w (new_AddIndex m fs app)"
| "construct E (Call_DeleteIndex fs) m app w = no_dialog w (new_DeleteIndex m fs app)"
| "construct E (Call_UpdateIndex fs) m app w = no_dialog w (new_UpdateIndex m fs app)"

text \<open>The calls whose \<^verbatim>\<open>__init__\<close> runs no dialog: it has none in it, or the tests in front of
  its calls of \<^verbatim>\<open>deal_with_not_null_no_default\<close> are false.\<close>

fun dialog_free :: "call \<Rightarrow> bool" where
  "dialog_free (Call_AddField f d) = (required f \<or> default_value f \<noteq> None)"
| "dialog_free (Call_DeleteField f d) = (required f \<or> default_value f \<noteq> None)"
| "dialog_free (Call_ChangeField old_f new_f old_d new_d) =
     (\<not> (required old_f \<and> \<not> required new_f \<and> default_value new_f = None)
      \<and> \<not> (\<not> required old_f \<and> required new_f \<and> default_value old_f = None))"
| "dialog_free k = True"

text \<open>A fragment put in front of the code a method returns, a fragment put at the end of a
  list and at its front; an exception stays the exception.\<close>

definition prefixed :: "string \<Rightarrow> error + string \<Rightarrow> error + string" where
  "prefixed s r = (case r of Inl e \<Rightarrow> Inl e | Inr code \<Rightarrow> Inr (s @ code))"

definition appended_to :: "string list \<Rightarrow> error + string \<Rightarrow> error + string list" where
  "appended_to xs r = (case r of Inl e \<Rightarrow> Inl e | Inr code \<Rightarrow> Inr (xs @ [code]))"

definition inserted_at_0 :: "string list \<Rightarrow> error + string \<Rightarrow> error + string list" where
  "inserted_at_0 xs r = (case r of Inl e \<Rightarrow> Inl e | Inr code \<Rightarrow> Inr (code # xs))"

text \<open>A \<^verbatim>\<open>ChangeField\<close> with the roles of the old and the new field exchanged.\<close>

definition swap_roles :: "change_action \<Rightarrow> change_action" where
  "swap_roles c =
     c\<lparr>old_field := new_field c, new_field := old_field c,
       old_def := new_def c, new_def := old_def c\<rparr>"

text \<open>What the loop of \<^verbatim>\<open>deal_with_not_null_no_default\<close> writes for the lines it turns
  down: the prompt and the complaint, once for each. The console when the loop is left:
  the announcement, that, and the prompt that was answered, with the lines after the
  answer still to be read.\<close>

definition reprompts :: "string list \<Rightarrow> string list" where
  "reprompts bads =
     concat (map (\<lambda>c. ['' ? Please select a choice: '', '' ! Invalid choice.'' @ nl]) bads)"

definition console_after_choice ::
  "'a null_issues_scheme \<Rightarrow> field \<Rightarrow> io \<Rightarrow> string list \<Rightarrow> string list \<Rightarrow> io" where
  "console_after_choice self f w bads rest =
     \<lparr> stdin = rest,
       stdout = stdout (announce self f w) @ reprompts bads @ ['' ? Please select a choice: ''] \<rparr>"

text \<open>A line that the loop of \<^verbatim>\<open>add_one_time_default\<close> answers with another prompt (an empty
  line, or code whose evaluation raises \<^verbatim>\<open>SyntaxError\<close> or \<^verbatim>\<open>NameError\<close>), and a line of code
  that evaluates to a value.\<close>

definition asked_again :: "env \<Rightarrow> string \<Rightarrow> bool" where
  "asked_again E c =
     (c = [] \<or> (c \<noteq> ''exit'' \<and> (case eval E c of Caught msg \<Rightarrow> True | _ \<Rightarrow> False)))"

definition evaluates :: "env \<Rightarrow> string \<Rightarrow> bool" where
  "evaluates E c =
     (c \<noteq> [] \<and> c \<noteq> ''exit'' \<and> (case eval E c of Value v \<Rightarrow> True | _ \<Rightarrow> False))"

subsection \<open>Example values\<close>

text \<open>\<^verbatim>\<open>repr\<close> of a byte string in Python 2: between single quotes, or between double quotes
  when the string has a single quote and no double quote in it; the quote and the backslash
  are escaped, tab, newline and carriage return are written \<^verbatim>\<open>\t\<close>, \<^verbatim>\<open>\n\<close> and \<^verbatim>\<open>\r\<close>, and any
  other byte outside the printable ASCII range is written \<^verbatim>\<open>\xNN\<close>.\<close>

definition hex_digit :: "nat \<Rightarrow> char" where
  "hex_digit n = ''0123456789abcdef'' ! n"

definition str_repr_char :: "char \<Rightarrow> char \<Rightarrow> string" where
  "str_repr_char quote c =
     (if c = quote \<or> c = CHR 0x5C then [CHR 0x5C, c]
      else if c = CHR 0x09 then [CHR 0x5C, CHR ''t'']
      else if c = CHR 0x0A then [CHR 0x5C, CHR ''n'']
      else if c = CHR 0x0D then [CHR 0x5C, CHR ''r'']
      else if (of_char c :: nat) < 32 \<or> 127 \<le> (of_char c :: nat)
        then [CHR 0x5C, CHR ''x'', hex_digit (of_char c div 16), hex_digit (of_char c mod 16)]
      else [c])"

definition str_repr :: "string \<Rightarrow> string" where
  "str_repr s =
     (let quote = (if CHR 0x27 \<in> set s \<and> CHR 0x22 \<notin> set s then CHR 0x22 else CHR 0x27)
      in quote # concat (map (str_repr_char quote) s) @ [quote])"

text \<open>What \<^verbatim>\<open>eval\<close> does with a few lines: two expressions with a value, a division by zero,
  a line that does not parse; any other line is taken for a name that is not defined.\<close>

definition example_eval :: "string \<Rightarrow> eval_outcome" where
  "example_eval c =
     (if c = ''42'' then Value ''42''
      else if c = ''datetime.date.today()'' then Value ''datetime.date(2014, 7, 1)''
      else if c = ''1/0'' then Uncaught ''integer division or modulo by zero''
      else if c = ''1 +'' then Caught ''unexpected EOF while parsing (<string>, line 1)''
      else Caught (''name '' @ sq @ c @ sq @ '' is not defined''))"

text \<open>The environment of the examples is the module's own: \<^verbatim>\<open>self.triple_to_def\<close> and
  \<^verbatim>\<open>self.triples_to_defs\<close> are not there.\<close>

definition example_env :: env where
  "example_env = module_env str_repr example_eval"

text \<open>A vertex class, an edge class and a class that is no element, with the \<^verbatim>\<open>str\<close> a class
  has.\<close>

definition person :: model_class where
  "person = \<lparr> class_name = ''Person'',
               class_str = ''<class '' @ sq @ ''app.models.Person'' @ sq @ ''>'',
               base = Vertex, get_element_type = ''person'', get_label = [] \<rparr>"

definition knows :: model_class where
  "knows = \<lparr> class_name = ''Knows'',
              class_str = ''<class '' @ sq @ ''app.models.Knows'' @ sq @ ''>'',
              base = Edge, get_element_type = [], get_label = ''knows'' \<rparr>"

definition plain :: model_class where
  "plain = \<lparr> class_name = ''Plain'',
              class_str = ''<class '' @ sq @ ''app.models.Plain'' @ sq @ ''>'',
              base = Neither, get_element_type = [], get_label = [] \<rparr>"

text \<open>An integer property \<^verbatim>\<open>age\<close>: required with no default, and not required with no
  default. A string property \<^verbatim>\<open>nick\<close> that may be blank.\<close>

definition age_required :: field where
  "age_required = \<lparr> property_class = OtherProperty, name = ''age'', column = ''age'',
                     required = True, default_value = None, blank = False \<rparr>"

definition age_optional :: field where
  "age_optional = \<lparr> property_class = OtherProperty, name = ''age'', column = ''age_col'',
                     required = False, default_value = None, blank = False \<rparr>"

definition nick :: field where
  "nick = \<lparr> property_class = String, name = ''nick'', column = ''nick'',
             required = False, default_value = None, blank = True \<rparr>"

definition integer_def :: field_def where
  "integer_def = (''mogwai.properties.Integer'', [], Map.empty)"

definition string_def :: field_def where
  "string_def = (''mogwai.properties.String'', [], Map.empty)"

text \<open>The two fragments \<^verbatim>\<open>ChangeField._code\<close> builds for a change from \<open>old_f\<close> to \<open>new_f\<close>: the
  rename, and the alteration, which needs the rendering of the field definition.\<close>

definition rename_fragment :: "env \<Rightarrow> change_action \<Rightarrow> field \<Rightarrow> field \<Rightarrow> string" where
  "rename_fragment E self old_f new_f =
     ChangeField_RENAME_TEMPLATE E (model_class_name self) (model_name self)
       (name new_f) (column old_f) (column new_f)"

definition alter_fragment :: "env \<Rightarrow> change_action \<Rightarrow> field \<Rightarrow> field_def \<Rightarrow> error + string" where
  "alter_fragment E self new_f new_d =
     (case triple_to_def E new_d of
        Inl e \<Rightarrow> Inl e
      | Inr fd \<Rightarrow>
          Inr (ChangeField_FORWARDS_TEMPLATE E (model_class_name self) (model_name self)
                 (name new_f) (column new_f) fd))"

text \<open>Instances on the model \<open>person\<close>: an index on \<^verbatim>\<open>age\<close>, and the removal of \<^verbatim>\<open>age\<close> and a
  change of \<^verbatim>\<open>age\<close> that also changes its column, both as their constructors leave them when
  the user answers the dialog with \<^verbatim>\<open>3\<close>.\<close>

definition age_index :: fields_action where
  "age_index =
     \<lparr> app_name = ''app'', model = person, model_class_name = ''Person'',
       model_type = ''vertex'', model_name = ''person'', fields_list = [age_required] \<rparr>"

definition age_removed :: field_action where
  "age_removed =
     \<lparr> app_name = ''app'', model = person, model_class_name = ''Person'',
       model_type = ''vertex'', model_name = ''person'',
       null_reason = ''removing this field'', issue_with_backward_migration = True,
       irreversible = True, field = age_optional, field_def = integer_def \<rparr>"

definition age_changed :: change_action where
  "age_changed =
     \<lparr> app_name = ''app'', model = person, model_class_name = ''Person'',
       model_type = ''vertex'', model_name = ''person'',
       null_reason = ''making this field nullable'', issue_with_backward_migration = True,
       irreversible = True, old_field = age_optional, new_field = age_required,
       old_def = integer_def, new_def = integer_def \<rparr>"

text \<open>A change of \<^verbatim>\<open>age\<close> that only moves it to the column \<^verbatim>\<open>years\<close>, as its constructor leaves
  it (no dialog runs).\<close>

definition age_moved :: change_action where
  "age_moved =
     \<lparr> app_name = ''app'', model = person, model_class_name = ''Person'',
       model_type = ''vertex'', model_name = ''person'',
       null_reason = ''making this field non-nullable'', issue_with_backward_migration = False,
       irreversible = False, old_field = age_required,
       new_field = age_required\<lparr>column := ''years''\<rparr>,
       old_def = integer_def, new_def = integer_def \<rparr>"

section \<open>The example environment\<close>

lemma example_env_simps:
  "repr example_env = str_repr"
  "eval example_env = example_eval"
  "triple_to_def example_env d = Inl (AttributeError ''triple_to_def'')"
  "triples_to_defs example_env m = Inl (AttributeError ''triples_to_defs'')"
  by (simp_all add: example_env_def module_env_def)

lemma str_repr_examples:
  "str_repr [] = sq @ sq"
  "str_repr ''age'' = sq @ ''age'' @ sq"
  "str_repr ''person'' = sq @ ''person'' @ sq"
  by (simp_all add: str_repr_def str_repr_char_def Let_def sq_def)

section \<open>Forward and backward code of the paired actions\<close>

text \<open>
  C10. For every \<^verbatim>\<open>UpdateIndex\<close> instance \<^verbatim>\<open>forwards_code()\<close> equals \<^verbatim>\<open>backwards_code()\<close>:
  both are \<^verbatim>\<open>UPDATE_TEMPLATE\<close> filled with the same model name, columns and field names.
\<close>

theorem UpdateIndex_forwards_is_backwards:
  "forwards_code E (UpdateIndex self) = backwards_code E (UpdateIndex self)
   \<and> forwards_code E (UpdateIndex self)
       = Inr (AddIndex_UPDATE_TEMPLATE E (model_class_name self) (model_name self)
                (map column (fields_list self)) (map name (fields_list self)))"
  by (simp add: UpdateIndex_forwards_code_def UpdateIndex_backwards_code_def)

text \<open>
  C4. On the same state, \<^verbatim>\<open>DeleteModel.forwards_code()\<close> is \<^verbatim>\<open>AddModel.backwards_code()\<close> and
  \<^verbatim>\<open>DeleteModel.backwards_code()\<close> is \<^verbatim>\<open>AddModel.forwards_code()\<close> (whatever the latter
  yields); the same exchange holds for \<^verbatim>\<open>DeleteUnique\<close> and \<^verbatim>\<open>AddUnique\<close>, and for
  \<^verbatim>\<open>DeleteIndex\<close> and \<^verbatim>\<open>AddIndex\<close>.
\<close>

theorem delete_swaps_the_code_of_add:
  "forwards_code E (DeleteModel s) = backwards_code E (AddModel s)
   \<and> backwards_code E (DeleteModel s) = forwards_code E (AddModel s)
   \<and> forwards_code E (DeleteUnique u) = backwards_code E (AddUnique u)
   \<and> backwards_code E (DeleteUnique u) = forwards_code E (AddUnique u)
   \<and> forwards_code E (DeleteIndex i) = backwards_code E (AddIndex i)
   \<and> backwards_code E (DeleteIndex i) = forwards_code E (AddIndex i)"
  by (simp add: DeleteModel_forwards_code_def DeleteModel_backwards_code_def
      DeleteUnique_forwards_code_def DeleteUnique_backwards_code_def
      DeleteIndex_forwards_code_def DeleteIndex_backwards_code_def)

text \<open>The forward code of deleting the index on \<^verbatim>\<open>age\<close> is the text that removes it, which is
  the backward code of adding it.\<close>

theorem delete_swaps_the_code_of_add_witness:
  "forwards_code example_env (DeleteIndex age_index)
     = Inr (''        # Removing index on '' @ sq @ ''Person'' @ sq @ '', fields [''
              @ sq @ ''age'' @ sq @ '']'' @ nl @
            ''        db.delete_index('' @ sq @ ''person'' @ sq @ '', [''
              @ sq @ ''age'' @ sq @ ''])'' @ nl)
   \<and> backwards_code example_env (AddIndex age_index)
     = forwards_code example_env (DeleteIndex age_index)"
  using delete_swaps_the_code_of_add [of example_env undefined undefined age_index]
  by (simp add: AddIndex_backwards_code_def AddIndex_BACKWARDS_TEMPLATE_def age_index_def
      example_env_simps str_repr_examples list_repr_def age_required_def)

section \<open>Placement in the operation lists\<close>

text \<open>
  C3, as the code has it. \<^verbatim>\<open>add_forwards\<close> puts \<^verbatim>\<open>forwards_code()\<close> at the end of the list,
  or at index 0 when \<^verbatim>\<open>prepend_forwards\<close> is set, and \<^verbatim>\<open>add_backwards\<close> does the same with
  \<^verbatim>\<open>backwards_code()\<close> and \<^verbatim>\<open>prepend_backwards\<close>. \<^verbatim>\<open>prepend_backwards\<close> is set for \<^verbatim>\<open>AddUnique\<close>
  and \<^verbatim>\<open>AddIndex\<close>, and for \<^verbatim>\<open>DeleteIndex\<close> and \<^verbatim>\<open>UpdateIndex\<close>, which inherit it from
  \<^verbatim>\<open>AddIndex\<close>; \<^verbatim>\<open>DeleteUnique\<close> sets \<^verbatim>\<open>prepend_forwards\<close> and resets \<^verbatim>\<open>prepend_backwards\<close>;
  \<^verbatim>\<open>AddModel\<close>, \<^verbatim>\<open>DeleteModel\<close>, \<^verbatim>\<open>AddField\<close>, \<^verbatim>\<open>DeleteField\<close> and \<^verbatim>\<open>ChangeField\<close> append on
  both sides.
\<close>

theorem add_forwards_add_backwards_placement:
  "add_forwards E a fs
     = (if prepend_forwards a then inserted_at_0 fs (forwards_code E a)
        else appended_to fs (forwards_code E a))
   \<and> add_backwards E a bs
     = (if prepend_backwards a then inserted_at_0 bs (backwards_code E a)
        else appended_to bs (backwards_code E a))
   \<and> prepend_backwards (AddUnique u) \<and> prepend_backwards (AddIndex u)
   \<and> prepend_backwards (DeleteIndex u) \<and> prepend_backwards (UpdateIndex u)
   \<and> prepend_forwards (DeleteUnique u) \<and> \<not> prepend_backwards (DeleteUnique u)
   \<and> \<not> prepend_forwards (AddUnique u) \<and> \<not> prepend_forwards (AddIndex u)
   \<and> \<not> prepend_forwards (DeleteIndex u) \<and> \<not> prepend_forwards (UpdateIndex u)
   \<and> \<not> prepend_forwards (AddModel s) \<and> \<not> prepend_backwards (AddModel s)
   \<and> \<not> prepend_forwards (DeleteModel s) \<and> \<not> prepend_backwards (DeleteModel s)
   \<and> \<not> prepend_forwards (AddField f) \<and> \<not> prepend_backwards (AddField f)
   \<and> \<not> prepend_forwards (DeleteField f) \<and> \<not> prepend_backwards (DeleteField f)
   \<and> \<not> prepend_forwards (ChangeField c) \<and> \<not> prepend_backwards (ChangeField c)"
  by (simp add: add_forwards_def add_backwards_def inserted_at_0_def appended_to_def)

text \<open>
  C3 as stated has every action but \<^verbatim>\<open>AddUnique\<close>, \<^verbatim>\<open>AddIndex\<close> and \<^verbatim>\<open>DeleteUnique\<close> append on
  both sides. \<^verbatim>\<open>DeleteIndex\<close> does not: its \<^verbatim>\<open>add_backwards\<close> puts the backward code in front
  of what the list holds.
\<close>

theorem DeleteIndex_add_backwards_counterexample:
  "add_backwards example_env (DeleteIndex age_index) [''first'']
     = inserted_at_0 [''first''] (backwards_code example_env (DeleteIndex age_index))
   \<and> add_backwards example_env (DeleteIndex age_index) [''first'']
     \<noteq> appended_to [''first''] (backwards_code example_env (DeleteIndex age_index))"
  by (simp add: add_backwards_def inserted_at_0_def appended_to_def
      DeleteIndex_backwards_code_def AddIndex_forwards_code_def AddIndex_FORWARDS_TEMPLATE_def)

section \<open>The decision tree of the dialog\<close>

lemma choice_loop_Cons:
  "choice_loop b \<lparr>stdin = c # rest, stdout = out\<rparr> =
     (if c = ''1'' then Inl (SystemExit 1)
      else if c = ''2'' \<or> (c = ''3'' \<and> b)
        then Inr (c, \<lparr>stdin = rest, stdout = out @ ['' ? Please select a choice: '']\<rparr>)
      else choice_loop b \<lparr>stdin = rest, stdout = out @ reprompts [c]\<rparr>)"
  by (subst choice_loop.simps [of b "\<lparr>stdin = c # rest, stdout = out\<rparr>"])
     (simp add: raw_input_def print_def reprompts_def)

lemma choice_loop_Nil: "choice_loop b \<lparr>stdin = [], stdout = out\<rparr> = Inl EOFError"
  by (subst choice_loop.simps) (simp add: raw_input_def)

lemma choice_loop_rejected:
  "\<forall>c\<in>set bads. c \<noteq> ''1'' \<and> c \<noteq> ''2'' \<and> \<not> (c = ''3'' \<and> b) \<Longrightarrow>
   choice_loop b \<lparr>stdin = bads @ rest, stdout = out\<rparr>
     = choice_loop b \<lparr>stdin = rest, stdout = out @ reprompts bads\<rparr>"
proof (induction bads arbitrary: out)
  case Nil
  show ?case by (simp add: reprompts_def)
next
  case (Cons c cs)
  have "choice_loop b \<lparr>stdin = (c # cs) @ rest, stdout = out\<rparr>
      = choice_loop b \<lparr>stdin = cs @ rest, stdout = out @ reprompts [c]\<rparr>"
    using Cons.prems by (auto simp add: choice_loop_Cons)
  also have "\<dots> = choice_loop b \<lparr>stdin = rest, stdout = (out @ reprompts [c]) @ reprompts cs\<rparr>"
    using Cons.prems by (intro Cons.IH) simp
  finally show ?case by (simp add: reprompts_def)
qed

lemma announce_console:
  "announce self f w = \<lparr>stdin = stdin w, stdout = stdout (announce self f w)\<rparr>"
  by (simp add: announce_def print_def Let_def)

lemma choice_loop_after_announce:
  assumes "\<forall>c\<in>set bads. c \<noteq> ''1'' \<and> c \<noteq> ''2'' \<and> \<not> (c = ''3'' \<and> b)"
    and "stdin w = bads @ rest"
  shows "choice_loop b (announce self f w)
     = choice_loop b \<lparr>stdin = rest, stdout = stdout (announce self f w) @ reprompts bads\<rparr>"
proof -
  have "choice_loop b (announce self f w)
      = choice_loop b \<lparr>stdin = bads @ rest, stdout = stdout (announce self f w)\<rparr>"
    using announce_console [of self f w] assms(2) by simp
  then show ?thesis using choice_loop_rejected [OF assms(1)] by simp
qed

text \<open>
  C2. For a \<^verbatim>\<open>String\<close> or \<^verbatim>\<open>Text\<close> field with \<^verbatim>\<open>blank\<close> set,
  \<^verbatim>\<open>deal_with_not_null_no_default\<close> stores \<^verbatim>\<open>repr("")\<close> under \<^verbatim>\<open>'default'\<close> in the keyword
  arguments of the field definition and returns, the console untouched. Otherwise it
  prompts in a loop. After any lines \<open>bads\<close> that are none of \<^verbatim>\<open>1\<close>, \<^verbatim>\<open>2\<close> and (when
  \<^verbatim>\<open>issue_with_backward_migration\<close> holds) \<^verbatim>\<open>3\<close>, each answered by the complaint and a new
  prompt: the line \<^verbatim>\<open>1\<close> exits with status 1; the line \<^verbatim>\<open>2\<close> hands over to
  \<^verbatim>\<open>add_one_time_default\<close>; the line \<^verbatim>\<open>3\<close>, when \<^verbatim>\<open>issue_with_backward_migration\<close> holds, sets
  \<^verbatim>\<open>irreversible\<close>; and when the input ends the read raises \<^verbatim>\<open>EOFError\<close>.
\<close>

theorem conflict_resolution_decision_tree:
  "(isinstance_String_Text f \<and> blank f \<longrightarrow>
      deal_with_not_null_no_default E self f (path, args, kwargs) w
        = Inr (self, (path, args, kwargs(''default'' \<mapsto> repr E [])), w))
   \<and> (\<not> (isinstance_String_Text f \<and> blank f)
       \<and> (\<forall>c\<in>set bads. c \<noteq> ''1'' \<and> c \<noteq> ''2''
              \<and> \<not> (c = ''3'' \<and> issue_with_backward_migration self)) \<longrightarrow>
        (stdin w = bads @ ''1'' # rest \<longrightarrow>
           deal_with_not_null_no_default E self f d w = Inl (SystemExit 1))
      \<and> (stdin w = bads @ ''2'' # rest \<longrightarrow>
           deal_with_not_null_no_default E self f d w
             = (case add_one_time_default E f d (console_after_choice self f w bads rest) of
                  Inl e \<Rightarrow> Inl e
                | Inr (d1, w2) \<Rightarrow> Inr (self, d1, w2)))
      \<and> (stdin w = bads @ ''3'' # rest \<and> issue_with_backward_migration self \<longrightarrow>
           deal_with_not_null_no_default E self f d w
             = Inr (self\<lparr>irreversible := True\<rparr>, d, console_after_choice self f w bads rest))
      \<and> (stdin w = bads \<longrightarrow>
           deal_with_not_null_no_default E self f d w = Inl EOFError))"
proof -
  have blank_case: "isinstance_String_Text f \<and> blank f \<longrightarrow>
      deal_with_not_null_no_default E self f (path, args, kwargs) w
        = Inr (self, (path, args, kwargs(''default'' \<mapsto> repr E [])), w)"
    by (simp add: deal_with_not_null_no_default_def set_default_def)
  {
    assume nb: "\<not> (isinstance_String_Text f \<and> blank f)"
      and bads: "\<forall>c\<in>set bads. c \<noteq> ''1'' \<and> c \<noteq> ''2''
              \<and> \<not> (c = ''3'' \<and> issue_with_backward_migration self)"
    note loop = choice_loop_after_announce [OF bads, of w _ self f]
    have one: "stdin w = bads @ ''1'' # rest \<longrightarrow>
           deal_with_not_null_no_default E self f d w = Inl (SystemExit 1)"
      using nb loop [of "''1'' # rest"]
      by (auto simp add: deal_with_not_null_no_default_def choice_loop_Cons)
    have two: "stdin w = bads @ ''2'' # rest \<longrightarrow>
           deal_with_not_null_no_default E self f d w
             = (case add_one_time_default E f d (console_after_choice self f w bads rest) of
                  Inl e \<Rightarrow> Inl e
                | Inr (d1, w2) \<Rightarrow> Inr (self, d1, w2))"
      using nb loop [of "''2'' # rest"]
      by (auto simp add: deal_with_not_null_no_default_def choice_loop_Cons console_after_choice_def)
    have three: "stdin w = bads @ ''3'' # rest \<and> issue_with_backward_migration self \<longrightarrow>
           deal_with_not_null_no_default E self f d w
             = Inr (self\<lparr>irreversible := True\<rparr>, d, console_after_choice self f w bads rest)"
      using nb loop [of "''3'' # rest"]
      by (auto simp add: deal_with_not_null_no_default_def choice_loop_Cons console_after_choice_def)
    have eof: "stdin w = bads \<longrightarrow>
           deal_with_not_null_no_default E self f d w = Inl EOFError"
      using nb loop [of "[]"]
      by (auto simp add: deal_with_not_null_no_default_def choice_loop_Nil)
    note one two three eof
  }
  with blank_case show ?thesis by blast
qed

text \<open>The five branches on the console: a blank string field; the line \<^verbatim>\<open>3\<close> turned down where
  the backward migration is not at issue, then \<^verbatim>\<open>1\<close>; the line \<^verbatim>\<open>3\<close> accepted where it is; the
  input ending on lines turned down; and the line \<^verbatim>\<open>2\<close>, after which \<^verbatim>\<open>exit\<close> leaves.\<close>

theorem conflict_resolution_decision_tree_witness:
  "deal_with_not_null_no_default example_env age_removed nick string_def
       \<lparr>stdin = [''1''], stdout = []\<rparr>
     = Inr (age_removed,
            (''mogwai.properties.String'', [], [''default'' \<mapsto> sq @ sq]),
            \<lparr>stdin = [''1''], stdout = []\<rparr>)
   \<and> deal_with_not_null_no_default example_env (age_removed\<lparr>issue_with_backward_migration := False\<rparr>)
       age_optional integer_def \<lparr>stdin = [''x'', ''3'', ''1'', ''2''], stdout = []\<rparr>
     = Inl (SystemExit 1)
   \<and> deal_with_not_null_no_default example_env (age_removed\<lparr>irreversible := False\<rparr>)
       age_optional integer_def \<lparr>stdin = [''x'', ''3'', ''1'', ''2''], stdout = []\<rparr>
     = Inr (age_removed, integer_def,
            console_after_choice (age_removed\<lparr>irreversible := False\<rparr>) age_optional
              \<lparr>stdin = [''x'', ''3'', ''1'', ''2''], stdout = []\<rparr> [''x''] [''1'', ''2''])
   \<and> deal_with_not_null_no_default example_env age_removed
       age_optional integer_def \<lparr>stdin = [''x'', ''yes''], stdout = []\<rparr>
     = Inl EOFError
   \<and> deal_with_not_null_no_default example_env age_removed
       age_optional integer_def \<lparr>stdin = [''2'', ''exit''], stdout = []\<rparr>
     = Inl (SystemExit 1)"
proof -
  have nb: "\<not> (isinstance_String_Text age_optional \<and> blank age_optional)"
    and b: "isinstance_String_Text nick \<and> blank nick"
    by (simp_all add: isinstance_String_Text_def age_optional_def nick_def)
  have out: "add_one_time_default example_env age_optional integer_def
      (console_after_choice age_removed age_optional \<lparr>stdin = [''2'', ''exit''], stdout = []\<rparr> [] [''exit''])
      = Inl (SystemExit 1)"
    by (simp add: add_one_time_default_def console_after_choice_def print_def Let_def
        code_loop.simps [of _ "\<lparr>stdin = [''exit''], stdout = out\<rparr>" for out] raw_input_def)
  show ?thesis
    using nb b out
      conflict_resolution_decision_tree [of nick example_env age_removed
        "''mogwai.properties.String''" "[]" Map.empty "\<lparr>stdin = [''1''], stdout = []\<rparr>"
        "[]" "[]" undefined]
      conflict_resolution_decision_tree [of age_optional example_env
        "age_removed\<lparr>issue_with_backward_migration := False\<rparr>" undefined undefined undefined
        "\<lparr>stdin = [''x'', ''3'', ''1'', ''2''], stdout = []\<rparr>" "[''x'', ''3'']" "[''2'']" integer_def]
      conflict_resolution_decision_tree [of age_optional example_env
        "age_removed\<lparr>irreversible := False\<rparr>" undefined undefined undefined
        "\<lparr>stdin = [''x'', ''3'', ''1'', ''2''], stdout = []\<rparr>" "[''x'']" "[''1'', ''2'']" integer_def]
      conflict_resolution_decision_tree [of age_optional example_env
        age_removed undefined undefined undefined
        "\<lparr>stdin = [''x'', ''yes''], stdout = []\<rparr>" "[''x'', ''yes'']" "[]" integer_def]
      conflict_resolution_decision_tree [of age_optional example_env
        age_removed undefined undefined undefined
        "\<lparr>stdin = [''2'', ''exit''], stdout = []\<rparr>" "[]" "[''exit'']" integer_def]
    by (simp add: age_removed_def string_def_def example_env_simps str_repr_examples)
qed

section \<open>The one-off default\<close>

lemma code_loop_Cons:
  "code_loop E \<lparr>stdin = c # rest, stdout = out\<rparr> =
     (if c = [] then
        code_loop E \<lparr>stdin = rest, stdout = out @ ['' >>> '',
          '' ! Please enter some code, or 'exit' (with no quotes) to exit.'' @ nl]\<rparr>
      else if c = ''exit'' then Inl (SystemExit 1)
      else (case eval E c of
              Caught msg \<Rightarrow>
                code_loop E \<lparr>stdin = rest,
                  stdout = out @ ['' >>> '', ('' ! Invalid input: '' @ msg) @ nl]\<rparr>
            | Uncaught msg \<Rightarrow> Inl (EvalError msg)
            | Value result \<Rightarrow> Inr (result, \<lparr>stdin = rest, stdout = out @ ['' >>> '']\<rparr>)))"
  by (subst code_loop.simps [of E "\<lparr>stdin = c # rest, stdout = out\<rparr>"])
     (simp add: raw_input_def print_def split: eval_outcome.splits)

lemma code_loop_asked_again:
  "\<forall>c\<in>set junk. asked_again E c \<Longrightarrow> evaluates E code \<Longrightarrow>
   \<exists>v out'. code_loop E \<lparr>stdin = junk @ code # rest, stdout = out\<rparr>
               = Inr (v, \<lparr>stdin = rest, stdout = out'\<rparr>)"
proof (induction junk arbitrary: out)
  case Nil
  then show ?case
    by (auto simp: code_loop_Cons evaluates_def split: eval_outcome.splits)
next
  case (Cons c cs)
  from Cons.prems have c: "asked_again E c" and cs: "\<forall>c\<in>set cs. asked_again E c"
    by simp_all
  from c have "\<exists>out1. code_loop E \<lparr>stdin = (c # cs) @ code # rest, stdout = out\<rparr>
       = code_loop E \<lparr>stdin = cs @ code # rest, stdout = out1\<rparr>"
  proof (cases "c = []")
    case True
    then show ?thesis by (simp add: code_loop_Cons) (rule exI, rule refl)
  next
    case False
    with c obtain msg where "c \<noteq> ''exit''" and "eval E c = Caught msg"
      by (auto simp: asked_again_def split: eval_outcome.splits)
    with False show ?thesis by (simp add: code_loop_Cons) (rule exI, rule refl)
  qed
  then obtain out1 where
    "code_loop E \<lparr>stdin = (c # cs) @ code # rest, stdout = out\<rparr>
       = code_loop E \<lparr>stdin = cs @ code # rest, stdout = out1\<rparr>"
    by blast
  with Cons.IH [OF cs Cons.prems(2), of out1] show ?case by simp
qed

lemma add_one_time_default_keeps_field_def:
  "add_one_time_default E f d w = Inr (d', w') \<Longrightarrow> d' = d"
  by (auto simp: add_one_time_default_def Let_def split: sum.splits)

lemma add_one_time_default_returns:
  assumes "\<forall>c\<in>set junk. asked_again E c" and "evaluates E code"
    and "stdin w = junk @ code # rest"
  shows "\<exists>w'. add_one_time_default E f d w = Inr (d, w') \<and> stdin w' = rest"
proof -
  let ?w2 = "print '' ? The datetime module is available, so you can do e.g. datetime.date.today()''
         (print '' ? Please enter Python code for your one-off default value.'' w)"
  have "?w2 = \<lparr>stdin = junk @ code # rest, stdout = stdout ?w2\<rparr>"
    using assms(3) by (simp add: print_def)
  with code_loop_asked_again [OF assms(1,2), of rest "stdout ?w2"]
  obtain v out' where "code_loop E ?w2 = Inr (v, \<lparr>stdin = rest, stdout = out'\<rparr>)"
    by auto
  then show ?thesis by (simp add: add_one_time_default_def Let_def)
qed

text \<open>
  C9. \<^verbatim>\<open>add_one_time_default\<close> never changes the field definition. When the user, after any
  lines that are answered by another prompt, enters code that evaluates to a value, it
  returns with the field definition as it was: the value is dropped. So does
  \<^verbatim>\<open>deal_with_not_null_no_default\<close> when the user chooses \<^verbatim>\<open>2\<close> first, and it leaves the
  instance as it was too.
\<close>

theorem one_off_default_is_discarded:
  "(add_one_time_default E f d w = Inr (d', w') \<longrightarrow> d' = d)
   \<and> ((\<forall>c\<in>set junk. asked_again E c) \<and> evaluates E code \<and> stdin w = junk @ code # rest \<longrightarrow>
        (\<exists>w1. add_one_time_default E f d w = Inr (d, w1) \<and> stdin w1 = rest))
   \<and> (\<not> (isinstance_String_Text f \<and> blank f) \<and> (\<forall>c\<in>set junk. asked_again E c)
       \<and> evaluates E code \<and> stdin w = ''2'' # junk @ code # rest \<longrightarrow>
        (\<exists>w1. deal_with_not_null_no_default E self f d w = Inr (self, d, w1) \<and> stdin w1 = rest))"
proof -
  have frame: "add_one_time_default E f d w = Inr (d', w') \<longrightarrow> d' = d"
    using add_one_time_default_keeps_field_def by blast
  have direct: "(\<forall>c\<in>set junk. asked_again E c) \<and> evaluates E code
        \<and> stdin w = junk @ code # rest \<longrightarrow>
        (\<exists>w1. add_one_time_default E f d w = Inr (d, w1) \<and> stdin w1 = rest)"
    using add_one_time_default_returns by blast
  have dialog: "\<not> (isinstance_String_Text f \<and> blank f) \<and> (\<forall>c\<in>set junk. asked_again E c)
       \<and> evaluates E code \<and> stdin w = ''2'' # junk @ code # rest \<longrightarrow>
        (\<exists>w1. deal_with_not_null_no_default E self f d w = Inr (self, d, w1) \<and> stdin w1 = rest)"
  proof (intro impI, elim conjE)
    assume nb: "\<not> (isinstance_String_Text f \<and> blank f)"
      and junk: "\<forall>c\<in>set junk. asked_again E c" and code: "evaluates E code"
      and w: "stdin w = ''2'' # junk @ code # rest"
    let ?w0 = "announce self f w"
    let ?w1 = "\<lparr>stdin = junk @ code # rest,
                stdout = stdout ?w0 @ ['' ? Please select a choice: '']\<rparr>"
    have "?w0 = \<lparr>stdin = ''2'' # junk @ code # rest, stdout = stdout ?w0\<rparr>"
      using w by (simp add: announce_def print_def Let_def)
    then have loop: "choice_loop (issue_with_backward_migration self) ?w0 = Inr (''2'', ?w1)"
      using choice_loop_Cons [of "issue_with_backward_migration self" "''2''"
          "junk @ code # rest" "stdout ?w0"]
      by simp
    from add_one_time_default_returns [OF junk code, of ?w1 rest f d]
    obtain w2 where "add_one_time_default E f d ?w1 = Inr (d, w2)" and "stdin w2 = rest"
      by auto
    with nb loop show "\<exists>w1. deal_with_not_null_no_default E self f d w = Inr (self, d, w1)
        \<and> stdin w1 = rest"
      by (auto simp add: deal_with_not_null_no_default_def)
  qed
  from frame direct dialog show ?thesis by blast
qed

text \<open>The user chooses \<^verbatim>\<open>2\<close>, enters an empty line, a line that does not parse and then
  \<^verbatim>\<open>datetime.date.today()\<close>: the field definition of \<^verbatim>\<open>age\<close> is what it was.\<close>

theorem one_off_default_is_discarded_witness:
  "(\<exists>w1. deal_with_not_null_no_default example_env age_removed age_optional integer_def
            \<lparr>stdin = [''2'', [], ''1 +'', ''datetime.date.today()'', ''next''], stdout = []\<rparr>
          = Inr (age_removed, integer_def, w1) \<and> stdin w1 = [''next''])
   \<and> (\<exists>w1. add_one_time_default example_env age_optional integer_def
            \<lparr>stdin = [''1 +'', ''42''], stdout = []\<rparr>
          = Inr (integer_def, w1) \<and> stdin w1 = [])"
proof -
  have "\<not> (isinstance_String_Text age_optional \<and> blank age_optional)"
    by (simp add: isinstance_String_Text_def age_optional_def)
  moreover have "\<forall>c\<in>set [[], ''1 +'']. asked_again example_env c"
    "\<forall>c\<in>set [''1 +'']. asked_again example_env c"
    by (simp_all add: asked_again_def example_env_simps example_eval_def)
  moreover have "evaluates example_env ''datetime.date.today()''" "evaluates example_env ''42''"
    by (simp_all add: evaluates_def example_env_simps example_eval_def)
  ultimately show ?thesis
    using one_off_default_is_discarded [of example_env age_optional integer_def
        "\<lparr>stdin = [''2'', [], ''1 +'', ''datetime.date.today()'', ''next''], stdout = []\<rparr>"
        undefined undefined "[[], ''1 +'']" "''datetime.date.today()''" "[''next'']" age_removed]
      one_off_default_is_discarded [of example_env age_optional integer_def
        "\<lparr>stdin = [''1 +'', ''42''], stdout = []\<rparr>"
        undefined undefined "[''1 +'']" "''42''" "[]" age_removed]
    by simp
qed

section \<open>When \<^verbatim>\<open>AddField\<close> runs the dialog\<close>

text \<open>
  C1 has the constructor of \<^verbatim>\<open>AddField\<close> run the dialog exactly for a field that is required
  and has no default, as the comment above the test in \<^verbatim>\<open>AddField.__init__\<close> says. The test
  itself is \<^verbatim>\<open>not is_required and not default\<close>. With the line \<^verbatim>\<open>1\<close> waiting on the console: for
  the required \<^verbatim>\<open>age\<close> without a default the constructor returns the instance and has
  neither read nor written; for the optional \<^verbatim>\<open>age\<close> without a default the dialog runs and the
  line \<^verbatim>\<open>1\<close> leaves with status 1.
\<close>

theorem AddField_dialog_on_nullable_not_on_required:
  "new_AddField example_env person age_required integer_def ''app'' \<lparr>stdin = [''1''], stdout = []\<rparr>
     = Inr (AddField \<lparr> app_name = ''app'', model = person, model_class_name = ''Person'',
                       model_type = ''vertex'', model_name = ''person'',
                       null_reason = ''adding this field'',
                       issue_with_backward_migration = False, irreversible = False,
                       field = age_required, field_def = integer_def \<rparr>,
            \<lparr>stdin = [''1''], stdout = []\<rparr>)
   \<and> required age_required \<and> default_value age_required = None
   \<and> new_AddField example_env person age_optional integer_def ''app'' \<lparr>stdin = [''1''], stdout = []\<rparr>
     = Inl (SystemExit 1)
   \<and> \<not> required age_optional"
  by (simp add: new_AddField_def AddField_init_def model_type_and_name_def issubclass_def
      person_def age_required_def age_optional_def deal_with_not_null_no_default_def
      isinstance_String_Text_def announce_def print_def Let_def choice_loop_Cons)

section \<open>The three outputs on the module's own classes\<close>

text \<open>
  C5 has every constructed action return a string from \<^verbatim>\<open>console_line()\<close>,
  \<^verbatim>\<open>forwards_code()\<close> and \<^verbatim>\<open>backwards_code()\<close>. None of the three raises
  \<^verbatim>\<open>NotImplementedError\<close>, but with the attributes the module's classes have, the methods
  that render a field definition raise \<^verbatim>\<open>AttributeError\<close>: \<^verbatim>\<open>forwards_code()\<close> of \<^verbatim>\<open>AddModel\<close>,
  \<^verbatim>\<open>AddField\<close> and \<^verbatim>\<open>ChangeField\<close>, and \<^verbatim>\<open>backwards_code()\<close> of \<^verbatim>\<open>DeleteModel\<close>,
  \<^verbatim>\<open>DeleteField\<close> and \<^verbatim>\<open>ChangeField\<close>.
\<close>

theorem code_without_triple_to_def:
  "forwards_code (module_env r e) (AddModel s) = Inl (AttributeError ''triples_to_defs'')
   \<and> backwards_code (module_env r e) (DeleteModel s) = Inl (AttributeError ''triples_to_defs'')
   \<and> forwards_code (module_env r e) (AddField f) = Inl (AttributeError ''triple_to_def'')
   \<and> backwards_code (module_env r e) (DeleteField f) = Inl (AttributeError ''triple_to_def'')
   \<and> forwards_code (module_env r e) (ChangeField c) = Inl (AttributeError ''triple_to_def'')
   \<and> backwards_code (module_env r e) (ChangeField c) = Inl (AttributeError ''triple_to_def'')
   \<and> forwards_code (module_env r e) a \<noteq> Inl NotImplementedError
   \<and> backwards_code (module_env r e) a \<noteq> Inl NotImplementedError
   \<and> console_line (module_env r e) a \<noteq> Inl NotImplementedError"
proof -
  have fwd: "forwards_code (module_env r e) a \<noteq> Inl NotImplementedError"
    by (cases a)
       (simp_all add: module_env_def AddModel_forwards_code_def DeleteModel_forwards_code_def
          AddModel_backwards_code_def AddField_forwards_code_def DeleteField_forwards_code_def
          AddField_backwards_code_def ChangeField_forwards_code_def ChangeField_code_def
          AddUnique_forwards_code_def DeleteUnique_forwards_code_def AddUnique_backwards_code_def
          AddIndex_forwards_code_def DeleteIndex_forwards_code_def AddIndex_backwards_code_def
          UpdateIndex_forwards_code_def)
  have bwd: "backwards_code (module_env r e) a \<noteq> Inl NotImplementedError"
    by (cases a)
       (simp_all add: module_env_def AddModel_forwards_code_def DeleteModel_backwards_code_def
          AddModel_backwards_code_def AddField_forwards_code_def DeleteField_backwards_code_def
          AddField_backwards_code_def ChangeField_backwards_code_def ChangeField_code_def
          AddUnique_forwards_code_def DeleteUnique_backwards_code_def AddUnique_backwards_code_def
          AddIndex_forwards_code_def DeleteIndex_backwards_code_def AddIndex_backwards_code_def
          UpdateIndex_backwards_code_def)
  have con: "console_line (module_env r e) a \<noteq> Inl NotImplementedError"
    by (cases a) simp_all
  have raised:
    "forwards_code (module_env r e) (AddModel s) = Inl (AttributeError ''triples_to_defs'')"
    "backwards_code (module_env r e) (DeleteModel s) = Inl (AttributeError ''triples_to_defs'')"
    "forwards_code (module_env r e) (AddField f) = Inl (AttributeError ''triple_to_def'')"
    "backwards_code (module_env r e) (DeleteField f) = Inl (AttributeError ''triple_to_def'')"
    "forwards_code (module_env r e) (ChangeField c) = Inl (AttributeError ''triple_to_def'')"
    "backwards_code (module_env r e) (ChangeField c) = Inl (AttributeError ''triple_to_def'')"
    by (simp_all add: module_env_def AddModel_forwards_code_def DeleteModel_backwards_code_def
        AddField_forwards_code_def DeleteField_backwards_code_def ChangeField_forwards_code_def
        ChangeField_backwards_code_def ChangeField_code_def)
  from raised fwd bwd con show ?thesis by simp
qed

text \<open>An \<^verbatim>\<open>AddModel\<close> constructed for the vertex class \<^verbatim>\<open>Person\<close>: its backward code is text,
  its forward code is the exception.\<close>

theorem code_without_triple_to_def_witness:
  "new_AddModel person Map.empty ''app''
     = Inr (AddModel \<lparr> app_name = ''app'', model = person, model_class_name = ''Person'',
                       model_type = ''vertex'', model_name = ''person'', model_def = Map.empty \<rparr>)
   \<and> forwards_code (module_env (\<lambda>s. sq @ s @ sq) Value)
         (AddModel \<lparr> app_name = ''app'', model = person, model_class_name = ''Person'',
                     model_type = ''vertex'', model_name = ''person'', model_def = Map.empty \<rparr>)
     = Inl (AttributeError ''triples_to_defs'')
   \<and> backwards_code (module_env (\<lambda>s. sq @ s @ sq) Value)
         (AddModel \<lparr> app_name = ''app'', model = person, model_class_name = ''Person'',
                     model_type = ''vertex'', model_name = ''person'', model_def = Map.empty \<rparr>)
     = Inr (''        # Deleting vertex '' @ sq @ ''Person'' @ sq @ nl @
            ''        db.delete_vertex('' @ sq @ ''person'' @ sq @ '')'' @ nl)"
  using code_without_triple_to_def [of "\<lambda>s. sq @ s @ sq" Value
      "\<lparr> app_name = ''app'', model = person, model_class_name = ''Person'',
         model_type = ''vertex'', model_name = ''person'', model_def = Map.empty \<rparr>"]
  by (simp add: new_AddModel_def AddModel_init_def model_type_and_name_def issubclass_def
      person_def AddModel_backwards_code_def AddModel_BACKWARDS_TEMPLATE_def module_env_def)

section \<open>The model class at construction\<close>

lemma deal_keeps_type_and_name:
  "deal_with_not_null_no_default E self f d w = Inr (self', d', w')
   \<Longrightarrow> model_type self' = model_type self \<and> model_name self' = model_name self"
  by (auto simp: deal_with_not_null_no_default_def split: if_splits sum.splits prod.splits)

lemma model_type_and_name_Neither:
  "base m = Neither \<Longrightarrow>
   model_type_and_name m = Inl (MogwaiMigrationException (class_str m @ '' is Not a Vertex or Edge''))"
  by (simp add: model_type_and_name_def issubclass_def)

lemma model_type_and_name_Vertex:
  "base m = Vertex \<Longrightarrow> model_type_and_name m = Inr (''vertex'', get_element_type m)"
  by (simp add: model_type_and_name_def issubclass_def)

lemma model_type_and_name_Edge:
  "base m = Edge \<Longrightarrow> model_type_and_name m = Inr (''edge'', get_label m)"
  by (simp add: model_type_and_name_def issubclass_def)

lemma AddField_init_type_and_name:
  "model_type_and_name m = Inr (t, n) \<Longrightarrow> AddField_init E reason iwbm m f d app w = Inr (self, w')
   \<Longrightarrow> model_type self = t \<and> model_name self = n"
  by (auto simp: AddField_init_def Let_def split: if_splits sum.splits prod.splits
      dest!: deal_keeps_type_and_name)

lemma ChangeField_init_type_and_name:
  "model_type_and_name m = Inr (t, n)
   \<Longrightarrow> ChangeField_init E m old_f new_f old_d new_d app w = Inr (self, w')
   \<Longrightarrow> model_type self = t \<and> model_name self = n"
  by (auto simp: ChangeField_init_def Let_def split: if_splits sum.splits prod.splits
      dest!: deal_keeps_type_and_name)

lemma construct_Neither:
  "base m = Neither \<Longrightarrow>
   construct E k m app w = Inl (MogwaiMigrationException (class_str m @ '' is Not a Vertex or Edge''))"
  by (cases k)
     (simp_all add: model_type_and_name_Neither no_dialog_def new_AddModel_def new_DeleteModel_def
        new_AddField_def new_DeleteField_def new_ChangeField_def new_AddUnique_def
        new_DeleteUnique_def new_AddIndex_def new_DeleteIndex_def new_UpdateIndex_def
        AddModel_init_def AddField_init_def ChangeField_init_def AddUnique_init_def
        AddIndex_init_def)

lemma construct_type_and_name:
  assumes "model_type_and_name m = Inr (t, n)" and "construct E k m app w = Inr (a, w')"
  shows "model_type_of a = t \<and> model_name_of a = n"
proof (cases k)
  case (Call_AddField f d)
  with assms(2) obtain self where "a = AddField self"
      and "AddField_init E ''adding this field'' False m f d app w = Inr (self, w')"
    by (auto simp: new_AddField_def map_sum_def split: sum.splits)
  with AddField_init_type_and_name [OF assms(1)] show ?thesis by fastforce
next
  case (Call_DeleteField f d)
  with assms(2) obtain self where "a = DeleteField self"
      and "AddField_init E ''removing this field'' True m f d app w = Inr (self, w')"
    by (auto simp: new_DeleteField_def map_sum_def split: sum.splits)
  with AddField_init_type_and_name [OF assms(1)] show ?thesis by fastforce
next
  case (Call_ChangeField old_f new_f old_d new_d)
  with assms(2) obtain self where "a = ChangeField self"
      and "ChangeField_init E m old_f new_f old_d new_d app w = Inr (self, w')"
    by (auto simp: new_ChangeField_def map_sum_def split: sum.splits)
  with ChangeField_init_type_and_name [OF assms(1)] show ?thesis by fastforce
qed (use assms in \<open>auto simp: no_dialog_def new_AddModel_def new_DeleteModel_def
        new_AddUnique_def new_DeleteUnique_def new_AddIndex_def new_DeleteIndex_def
        new_UpdateIndex_def AddModel_init_def AddUnique_init_def AddIndex_init_def\<close>)

lemma construct_dialog_free:
  assumes "model_type_and_name m = Inr (t, n)" and "dialog_free k"
  shows "\<exists>a. construct E k m app w = Inr (a, w)"
proof (cases k)
  case (Call_AddField f d)
  with assms show ?thesis
    by (auto simp: new_AddField_def AddField_init_def Let_def)
next
  case (Call_DeleteField f d)
  with assms show ?thesis
    by (auto simp: new_DeleteField_def AddField_init_def Let_def)
next
  case (Call_ChangeField old_f new_f old_d new_d)
  with assms(2) have "\<not> (required old_f \<and> \<not> required new_f \<and> default_value new_f = None)"
    and "\<not> (\<not> required old_f \<and> required new_f \<and> default_value old_f = None)"
    by simp_all
  then have "ChangeField_init E m old_f new_f old_d new_d app w
      = Inr (\<lparr> app_name = app, model = m, model_class_name = class_name m,
                model_type = t, model_name = n,
                null_reason = ''making this field non-nullable'',
                issue_with_backward_migration = False, irreversible = False,
                old_field = old_f, new_field = new_f, old_def = old_d, new_def = new_d \<rparr>, w)"
    using assms(1) by (auto simp: ChangeField_init_def Let_def)
  with Call_ChangeField show ?thesis
    by (simp add: new_ChangeField_def)
qed (use assms in \<open>simp_all add: no_dialog_def new_AddModel_def new_DeleteModel_def
        new_AddUnique_def new_DeleteUnique_def new_AddIndex_def new_DeleteIndex_def
        new_UpdateIndex_def AddModel_init_def AddUnique_init_def AddIndex_init_def\<close>)

text \<open>What the dialog can raise: the exit, the end of the input, and what \<^verbatim>\<open>eval\<close> lets
  through.\<close>

lemma choice_loop_raises:
  "choice_loop b w = Inl e \<Longrightarrow> e = SystemExit 1 \<or> e = EOFError"
proof (induction b w rule: choice_loop.induct)
  case (1 iwbm w)
  show ?case
  proof (cases "stdin w")
    case Nil
    with "1.prems" show ?thesis
      by (subst (asm) choice_loop.simps) (simp add: raw_input_def)
  next
    case (Cons c rest)
    let ?w1 = "w\<lparr>stdin := rest, stdout := stdout w @ ['' ? Please select a choice: '']\<rparr>"
    have input: "raw_input '' ? Please select a choice: '' w = Inr (c, ?w1)"
      using Cons by (simp add: raw_input_def)
    show ?thesis
    proof (cases "c = ''1'' \<or> c = ''2'' \<or> (c = ''3'' \<and> iwbm)")
      case True
      with "1.prems" input show ?thesis
        by (subst (asm) choice_loop.simps) (auto split: if_splits)
    next
      case False
      with "1.prems" input
      have "choice_loop iwbm (print '' ! Invalid choice.'' ?w1) = Inl e"
        by (subst (asm) choice_loop.simps) (auto split: if_splits)
      with "1.IH" [OF input refl] False show ?thesis by auto
    qed
  qed
qed

lemma code_loop_raises:
  "code_loop E w = Inl e \<Longrightarrow> e = SystemExit 1 \<or> e = EOFError \<or> (\<exists>msg. e = EvalError msg)"
proof (induction E w rule: code_loop.induct)
  case (1 E w)
  show ?case
  proof (cases "stdin w")
    case Nil
    with "1.prems" show ?thesis
      by (subst (asm) code_loop.simps) (simp add: raw_input_def)
  next
    case (Cons c rest)
    let ?w1 = "w\<lparr>stdin := rest, stdout := stdout w @ ['' >>> '']\<rparr>"
    have input: "raw_input '' >>> '' w = Inr (c, ?w1)"
      using Cons by (simp add: raw_input_def)
    show ?thesis
    proof (cases "c = []")
      case True
      with "1.prems" input
      have "code_loop E (print '' ! Please enter some code, or 'exit' (with no quotes) to exit.'' ?w1)
          = Inl e"
        by (subst (asm) code_loop.simps) simp
      with "1.IH"(1) [OF input refl True] show ?thesis by simp
    next
      case False
      show ?thesis
      proof (cases "c = ''exit''")
        case True
        with "1.prems" input False show ?thesis
          by (subst (asm) code_loop.simps) simp
      next
        case exit: False
        show ?thesis
        proof (cases "eval E c")
          case (Value v)
          with "1.prems" input False exit show ?thesis
            by (subst (asm) code_loop.simps) simp
        next
          case (Caught msg)
          with "1.prems" input False exit
          have "code_loop E (print ('' ! Invalid input: '' @ msg) ?w1) = Inl e"
            by (subst (asm) code_loop.simps) simp
          with "1.IH"(2) [OF input refl False exit Caught] show ?thesis by simp
        next
          case (Uncaught msg)
          with "1.prems" input False exit show ?thesis
            by (subst (asm) code_loop.simps) auto
        qed
      qed
    qed
  qed
qed

lemma deal_raises:
  "deal_with_not_null_no_default E self f d w = Inl e
   \<Longrightarrow> e = SystemExit 1 \<or> e = EOFError \<or> (\<exists>msg. e = EvalError msg)"
  by (auto simp: deal_with_not_null_no_default_def add_one_time_default_def Let_def
      split: if_splits sum.splits prod.splits
      dest: choice_loop_raises code_loop_raises)

lemma construct_raises:
  assumes "model_type_and_name m = Inr (t, n)" and "construct E k m app w = Inl e"
  shows "e = SystemExit 1 \<or> e = EOFError \<or> (\<exists>msg. e = EvalError msg)"
proof (cases k)
  case (Call_AddField f d)
  with assms show ?thesis
    by (auto simp: new_AddField_def AddField_init_def Let_def map_sum_def
        split: sum.splits if_splits prod.splits dest: deal_raises)
next
  case (Call_DeleteField f d)
  with assms show ?thesis
    by (auto simp: new_DeleteField_def AddField_init_def Let_def map_sum_def
        split: sum.splits if_splits prod.splits dest: deal_raises)
next
  case (Call_ChangeField old_f new_f old_d new_d)
  with assms show ?thesis
    by (auto simp: new_ChangeField_def ChangeField_init_def Let_def map_sum_def
        split: sum.splits if_splits prod.splits dest: deal_raises)
qed (use assms in \<open>auto simp: no_dialog_def new_AddModel_def new_DeleteModel_def
        new_AddUnique_def new_DeleteUnique_def new_AddIndex_def new_DeleteIndex_def
        new_UpdateIndex_def AddModel_init_def AddUnique_init_def AddIndex_init_def\<close>)

text \<open>
  C6. Constructing any action with a model class that derives from neither \<^verbatim>\<open>Vertex\<close> nor
  \<^verbatim>\<open>Edge\<close> raises \<^verbatim>\<open>MogwaiMigrationException\<close>. On an instance constructed with a \<^verbatim>\<open>Vertex\<close>
  subclass \<^verbatim>\<open>model_type\<close> is \<^verbatim>\<open>'vertex'\<close> and \<^verbatim>\<open>model_name\<close> is \<^verbatim>\<open>get_element_type()\<close>; with an
  \<^verbatim>\<open>Edge\<close> subclass they are \<^verbatim>\<open>'edge'\<close> and \<^verbatim>\<open>get_label()\<close>. With a \<^verbatim>\<open>Vertex\<close> or an \<^verbatim>\<open>Edge\<close>
  subclass every constructor whose dialog does not run returns such an instance, no
  constructor raises \<^verbatim>\<open>MogwaiMigrationException\<close>, and what a constructor raises is what its
  dialog raises: the exit with status 1, the end of the input or an exception of \<^verbatim>\<open>eval\<close>.
\<close>

theorem model_class_decides_type_and_name:
  "(base m = Neither \<longrightarrow>
      construct E k m app w
        = Inl (MogwaiMigrationException (class_str m @ '' is Not a Vertex or Edge'')))
   \<and> (base m = Vertex \<and> construct E k m app w = Inr (a, w') \<longrightarrow>
      model_type_of a = ''vertex'' \<and> model_name_of a = get_element_type m)
   \<and> (base m = Edge \<and> construct E k m app w = Inr (a, w') \<longrightarrow>
      model_type_of a = ''edge'' \<and> model_name_of a = get_label m)
   \<and> (base m \<noteq> Neither \<and> dialog_free k \<longrightarrow> (\<exists>b. construct E k m app w = Inr (b, w)))
   \<and> (base m \<noteq> Neither \<longrightarrow> construct E k m app w \<noteq> Inl (MogwaiMigrationException msg))
   \<and> (base m \<noteq> Neither \<and> construct E k m app w = Inl e \<longrightarrow>
      e = SystemExit 1 \<or> e = EOFError \<or> (\<exists>msg. e = EvalError msg))"
proof -
  have neither: "base m = Neither \<longrightarrow>
      construct E k m app w
        = Inl (MogwaiMigrationException (class_str m @ '' is Not a Vertex or Edge''))"
    by (simp add: construct_Neither)
  have vertex: "base m = Vertex \<and> construct E k m app w = Inr (a, w') \<longrightarrow>
      model_type_of a = ''vertex'' \<and> model_name_of a = get_element_type m"
    using construct_type_and_name [OF model_type_and_name_Vertex] by blast
  have edge: "base m = Edge \<and> construct E k m app w = Inr (a, w') \<longrightarrow>
      model_type_of a = ''edge'' \<and> model_name_of a = get_label m"
    using construct_type_and_name [OF model_type_and_name_Edge] by blast
  have element: "base m \<noteq> Neither \<Longrightarrow> \<exists>t n. model_type_and_name m = Inr (t, n)"
    using model_type_and_name_Vertex model_type_and_name_Edge by (cases "base m") auto
  have free: "base m \<noteq> Neither \<and> dialog_free k \<longrightarrow> (\<exists>b. construct E k m app w = Inr (b, w))"
    using element construct_dialog_free by blast
  have raised: "base m \<noteq> Neither \<and> construct E k m app w = Inl e \<longrightarrow>
      e = SystemExit 1 \<or> e = EOFError \<or> (\<exists>msg. e = EvalError msg)" for e
    using element construct_raises by blast
  have no_exception:
    "base m \<noteq> Neither \<longrightarrow> construct E k m app w \<noteq> Inl (MogwaiMigrationException msg)"
    using raised [of "MogwaiMigrationException msg"] by auto
  from neither vertex edge free no_exception raised [of e] show ?thesis by blast
qed

text \<open>A class that is no element raises, whatever is constructed. On the vertex class: an
  added string field that may be blank, and a change of \<^verbatim>\<open>age\<close> whose dialog the user answers
  with \<^verbatim>\<open>3\<close>; an added optional \<^verbatim>\<open>age\<close> whose dialog the user leaves with \<^verbatim>\<open>1\<close> raises the exit.
  On the edge class: a deleted model, and a removed required \<^verbatim>\<open>age\<close>, for which no dialog
  runs.\<close>

theorem model_class_decides_type_and_name_witness:
  "construct example_env (Call_ChangeField age_optional age_required integer_def integer_def)
       plain ''app'' \<lparr>stdin = [''3''], stdout = []\<rparr>
     = Inl (MogwaiMigrationException
              (''<class '' @ sq @ ''app.models.Plain'' @ sq @ ''> is Not a Vertex or Edge''))
   \<and> (\<exists>a. construct example_env (Call_AddField nick string_def) person ''app''
               \<lparr>stdin = [], stdout = []\<rparr> = Inr (a, \<lparr>stdin = [], stdout = []\<rparr>)
          \<and> model_type_of a = ''vertex'' \<and> model_name_of a = ''person'')
   \<and> construct example_env (Call_ChangeField age_optional age_required integer_def integer_def)
       person ''app'' \<lparr>stdin = [''3''], stdout = []\<rparr>
     = Inr (ChangeField age_changed,
            console_after_choice (age_changed\<lparr>irreversible := False\<rparr>) age_optional
              \<lparr>stdin = [''3''], stdout = []\<rparr> [] [])
   \<and> model_type_of (ChangeField age_changed) = ''vertex''
   \<and> model_name_of (ChangeField age_changed) = ''person''
   \<and> construct example_env (Call_AddField age_optional integer_def) person ''app''
       \<lparr>stdin = [''1''], stdout = []\<rparr> = Inl (SystemExit 1)
   \<and> (\<exists>a. construct example_env (Call_DeleteModel Map.empty) knows ''app''
               \<lparr>stdin = [], stdout = []\<rparr> = Inr (a, \<lparr>stdin = [], stdout = []\<rparr>)
          \<and> model_type_of a = ''edge'' \<and> model_name_of a = ''knows'')
   \<and> (\<exists>a. construct example_env (Call_DeleteField age_required integer_def) knows ''app''
               \<lparr>stdin = [''1''], stdout = []\<rparr> = Inr (a, \<lparr>stdin = [''1''], stdout = []\<rparr>)
          \<and> model_type_of a = ''edge'' \<and> model_name_of a = ''knows'')"
proof -
  let ?w = "\<lparr>stdin = [], stdout = []\<rparr>"
  let ?w1 = "\<lparr>stdin = [''1''], stdout = []\<rparr>"
  let ?w3 = "\<lparr>stdin = [''3''], stdout = []\<rparr>"
  let ?change = "Call_ChangeField age_optional age_required integer_def integer_def"
  have bases: "base plain = Neither" "base person = Vertex" "base knows = Edge"
    and elements: "base person \<noteq> Neither" "base knows \<noteq> Neither"
    by (simp_all add: plain_def person_def knows_def)
  have free: "dialog_free (Call_DeleteModel Map.empty)"
    "dialog_free (Call_DeleteField age_required integer_def)"
    by (simp_all add: age_required_def)
  have blank: "construct example_env (Call_AddField nick string_def) person ''app'' ?w
      = Inr (AddField \<lparr> app_name = ''app'', model = person, model_class_name = ''Person'',
               model_type = ''vertex'', model_name = ''person'',
               null_reason = ''adding this field'', issue_with_backward_migration = False,
               irreversible = False, field = nick,
               field_def = set_default string_def (sq @ sq) \<rparr>, ?w)"
    by (simp add: new_AddField_def AddField_init_def model_type_and_name_def issubclass_def
        person_def nick_def deal_with_not_null_no_default_def isinstance_String_Text_def
        example_env_simps str_repr_examples)
  have changed: "construct example_env ?change person ''app'' ?w3
      = Inr (ChangeField age_changed,
             console_after_choice (age_changed\<lparr>irreversible := False\<rparr>) age_optional ?w3 [] [])"
    by (simp add: new_ChangeField_def ChangeField_init_def model_type_and_name_def issubclass_def
        person_def age_optional_def age_required_def age_changed_def
        deal_with_not_null_no_default_def isinstance_String_Text_def announce_def print_def
        Let_def choice_loop_Cons console_after_choice_def reprompts_def)
  have left: "construct example_env (Call_AddField age_optional integer_def) person ''app'' ?w1
      = Inl (SystemExit 1)"
    by (simp add: new_AddField_def AddField_init_def model_type_and_name_def issubclass_def
        person_def age_optional_def deal_with_not_null_no_default_def
        isinstance_String_Text_def announce_def print_def Let_def choice_loop_Cons)
  note inst = model_class_decides_type_and_name [where E = example_env and app = "''app''"]
  have c1: "construct example_env ?change plain ''app'' ?w3
      = Inl (MogwaiMigrationException
               (''<class '' @ sq @ ''app.models.Plain'' @ sq @ ''> is Not a Vertex or Edge''))"
    using bases(1) inst [where m = plain and k = ?change and w = ?w3]
    by (simp add: plain_def)
  have c2: "\<exists>a. construct example_env (Call_AddField nick string_def) person ''app'' ?w
        = Inr (a, ?w) \<and> model_type_of a = ''vertex'' \<and> model_name_of a = ''person''"
    using bases(2) blank
      inst [where m = person and k = "Call_AddField nick string_def" and w = ?w and w' = ?w]
    by (simp add: person_def)
  have c3: "model_type_of (ChangeField age_changed) = ''vertex''
      \<and> model_name_of (ChangeField age_changed) = ''person''"
    using bases(2) changed
      inst [where m = person and k = ?change and w = ?w3 and a = "ChangeField age_changed"
        and w' = "console_after_choice (age_changed\<lparr>irreversible := False\<rparr>) age_optional
                    ?w3 [] []"]
    by (simp add: person_def)
  have c4: "construct example_env (Call_AddField age_optional integer_def) person ''app'' ?w1
      = Inl (SystemExit 1)"
    using bases(2) left
      inst [where m = person and k = "Call_AddField age_optional integer_def" and w = ?w1
        and e = "SystemExit 1"]
    by simp
  obtain b where b: "construct example_env (Call_DeleteModel Map.empty) knows ''app'' ?w
      = Inr (b, ?w)"
    using elements(2) free(1)
      inst [where m = knows and k = "Call_DeleteModel Map.empty" and w = ?w]
    by blast
  have c5: "\<exists>a. construct example_env (Call_DeleteModel Map.empty) knows ''app'' ?w
        = Inr (a, ?w) \<and> model_type_of a = ''edge'' \<and> model_name_of a = ''knows''"
    using bases(3) b
      inst [where m = knows and k = "Call_DeleteModel Map.empty" and w = ?w and a = b and w' = ?w]
    by (simp add: knows_def)
  obtain c where c: "construct example_env (Call_DeleteField age_required integer_def) knows
      ''app'' ?w1 = Inr (c, ?w1)"
    using elements(2) free(2)
      inst [where m = knows and k = "Call_DeleteField age_required integer_def" and w = ?w1]
    by blast
  have c6: "\<exists>a. construct example_env (Call_DeleteField age_required integer_def) knows
        ''app'' ?w1 = Inr (a, ?w1) \<and> model_type_of a = ''edge'' \<and> model_name_of a = ''knows''"
    using bases(3) c
      inst [where m = knows and k = "Call_DeleteField age_required integer_def" and w = ?w1
        and a = c and w' = ?w1]
    by (simp add: knows_def)
  from c1 c2 changed c3 c4 c5 c6 show ?thesis by blast
qed

section \<open>Irreversible backward code\<close>

text \<open>For every outcome of the call \<^verbatim>\<open>self.triple_to_def\<close>, the methods put the rendering of
  \<^verbatim>\<open>IRREVERSIBLE_TEMPLATE\<close> in front of what the restoring code yields when \<^verbatim>\<open>irreversible\<close>
  is set, and yield what the restoring code yields when it is not.\<close>

lemma backwards_code_with_irreversible:
  "backwards_code E (DeleteField self)
     = (if irreversible self
        then prefixed (irreversable_code E self (field self)) (forwards_code E (AddField self))
        else forwards_code E (AddField self))
   \<and> backwards_code E (ChangeField c)
     = (if irreversible c
        then prefixed (irreversable_code E c (old_field c))
               (ChangeField_code E c (new_field c) (old_field c) (old_def c))
        else ChangeField_code E c (new_field c) (old_field c) (old_def c))"
  by (simp add: DeleteField_backwards_code_def ChangeField_backwards_code_def prefixed_def
      split: sum.splits)

text \<open>
  C7 has \<^verbatim>\<open>DeleteField.backwards_code()\<close> and \<^verbatim>\<open>ChangeField.backwards_code()\<close> return the
  rendering of \<^verbatim>\<open>IRREVERSIBLE_TEMPLATE\<close> in front of the restoring code when \<^verbatim>\<open>irreversible\<close> is
  set, and the restoring code alone when it is not. Both methods build the restoring code
  with \<^verbatim>\<open>self.triple_to_def\<close>, which no class of the module defines: with the flag set and with
  the flag unset they raise \<^verbatim>\<open>AttributeError\<close> and return no text.
\<close>

theorem irreversible_backwards_code_raises:
  "backwards_code (module_env r e) (DeleteField (self\<lparr>irreversible := True\<rparr>))
     = Inl (AttributeError ''triple_to_def'')
   \<and> backwards_code (module_env r e) (DeleteField (self\<lparr>irreversible := False\<rparr>))
     = Inl (AttributeError ''triple_to_def'')
   \<and> backwards_code (module_env r e) (ChangeField (c\<lparr>irreversible := True\<rparr>))
     = Inl (AttributeError ''triple_to_def'')
   \<and> backwards_code (module_env r e) (ChangeField (c\<lparr>irreversible := False\<rparr>))
     = Inl (AttributeError ''triple_to_def'')"
  by (simp add: module_env_def DeleteField_backwards_code_def AddField_forwards_code_def
      ChangeField_backwards_code_def ChangeField_code_def)

text \<open>The removal of \<^verbatim>\<open>age\<close> and the change of \<^verbatim>\<open>age\<close>, constructed with the user answering the
  dialog with \<^verbatim>\<open>3\<close>: the flag is set, and \<^verbatim>\<open>backwards_code()\<close> raises.\<close>

theorem irreversible_backwards_code_raises_witness:
  "new_DeleteField example_env person age_optional integer_def ''app''
       \<lparr>stdin = [''3''], stdout = []\<rparr>
     = Inr (DeleteField age_removed,
            console_after_choice (age_removed\<lparr>irreversible := False\<rparr>) age_optional
              \<lparr>stdin = [''3''], stdout = []\<rparr> [] [])
   \<and> irreversible age_removed
   \<and> backwards_code example_env (DeleteField age_removed)
     = Inl (AttributeError ''triple_to_def'')
   \<and> new_ChangeField example_env person age_optional age_required integer_def integer_def
       ''app'' \<lparr>stdin = [''3''], stdout = []\<rparr>
     = Inr (ChangeField age_changed,
            console_after_choice (age_changed\<lparr>irreversible := False\<rparr>) age_optional
              \<lparr>stdin = [''3''], stdout = []\<rparr> [] [])
   \<and> irreversible age_changed
   \<and> backwards_code example_env (ChangeField age_changed)
     = Inl (AttributeError ''triple_to_def'')"
proof -
  have removed: "new_DeleteField example_env person age_optional integer_def ''app''
       \<lparr>stdin = [''3''], stdout = []\<rparr>
     = Inr (DeleteField age_removed,
            console_after_choice (age_removed\<lparr>irreversible := False\<rparr>) age_optional
              \<lparr>stdin = [''3''], stdout = []\<rparr> [] [])"
    by (simp add: new_DeleteField_def AddField_init_def model_type_and_name_def issubclass_def
        person_def age_optional_def age_removed_def deal_with_not_null_no_default_def
        isinstance_String_Text_def announce_def print_def Let_def choice_loop_Cons
        console_after_choice_def reprompts_def)
  have changed: "new_ChangeField example_env person age_optional age_required integer_def
       integer_def ''app'' \<lparr>stdin = [''3''], stdout = []\<rparr>
     = Inr (ChangeField age_changed,
            console_after_choice (age_changed\<lparr>irreversible := False\<rparr>) age_optional
              \<lparr>stdin = [''3''], stdout = []\<rparr> [] [])"
    by (simp add: new_ChangeField_def ChangeField_init_def model_type_and_name_def issubclass_def
        person_def age_optional_def age_required_def age_changed_def
        deal_with_not_null_no_default_def isinstance_String_Text_def announce_def print_def
        Let_def choice_loop_Cons console_after_choice_def reprompts_def)
  have set: "age_removed\<lparr>irreversible := True\<rparr> = age_removed"
    "age_changed\<lparr>irreversible := True\<rparr> = age_changed"
    and flags: "irreversible age_removed" "irreversible age_changed"
    by (simp_all add: age_removed_def age_changed_def)
  from irreversible_backwards_code_raises [of str_repr example_eval age_removed age_changed]
  have "backwards_code example_env (DeleteField age_removed)
      = Inl (AttributeError ''triple_to_def'')"
    and "backwards_code example_env (ChangeField age_changed)
      = Inl (AttributeError ''triple_to_def'')"
    unfolding set example_env_def by blast+
  with removed changed flags show ?thesis by blast
qed

section \<open>The code of \<^verbatim>\<open>ChangeField\<close>\<close>

lemma rename_fragment_not_empty: "rename_fragment E self old_f new_f \<noteq> []"
  by (simp add: rename_fragment_def ChangeField_RENAME_TEMPLATE_def nl_def)

text \<open>For every outcome of the call \<^verbatim>\<open>self.triple_to_def\<close>: \<^verbatim>\<open>forwards_code()\<close> yields what the
  alteration yields, with the rename fragment (which is never empty) in front of it exactly
  when the columns of the old and the new field differ; \<^verbatim>\<open>backwards_code()\<close> yields the same
  with the roles of the old and the new field exchanged, and with the irreversible fragment
  in front when \<^verbatim>\<open>irreversible\<close> is set.\<close>

lemma ChangeField_code_structure:
  "forwards_code E (ChangeField c)
     = prefixed (if column (old_field c) \<noteq> column (new_field c)
                 then rename_fragment E c (old_field c) (new_field c) else [])
         (alter_fragment E c (new_field c) (new_def c))
   \<and> backwards_code E (ChangeField c)
     = (if irreversible c
        then prefixed (irreversable_code E c (old_field c))
               (forwards_code E (ChangeField (swap_roles c)))
        else forwards_code E (ChangeField (swap_roles c)))"
  by (auto simp add: ChangeField_forwards_code_def ChangeField_backwards_code_def
      ChangeField_code_def swap_roles_def prefixed_def rename_fragment_def alter_fragment_def
      split: sum.splits)

text \<open>
  C8 has \<^verbatim>\<open>forwards_code()\<close> of \<^verbatim>\<open>ChangeField\<close> contain the rename fragment exactly when the
  columns of the old and the new field differ, in front of the alteration built from the new
  field definition, and \<^verbatim>\<open>backwards_code()\<close> be the same construction with the roles exchanged.
  \<^verbatim>\<open>_code\<close> renders the field definition with \<^verbatim>\<open>self.triple_to_def\<close>, which no class of the
  module defines: whether the columns differ or not, both methods raise \<^verbatim>\<open>AttributeError\<close> and
  return no text, so no fragment is produced.
\<close>

theorem ChangeField_code_raises:
  "forwards_code (module_env r e) (ChangeField c) = Inl (AttributeError ''triple_to_def'')
   \<and> backwards_code (module_env r e) (ChangeField c) = Inl (AttributeError ''triple_to_def'')
   \<and> ChangeField_code (module_env r e) c old_f new_f new_d
     = Inl (AttributeError ''triple_to_def'')"
  by (simp add: module_env_def ChangeField_forwards_code_def ChangeField_backwards_code_def
      ChangeField_code_def)

text \<open>The change that moves \<^verbatim>\<open>age\<close> to the column \<^verbatim>\<open>years\<close>, as constructed: the columns differ,
  and \<^verbatim>\<open>forwards_code()\<close> and \<^verbatim>\<open>backwards_code()\<close> raise.\<close>

theorem ChangeField_code_raises_witness:
  "new_ChangeField example_env person age_required (age_required\<lparr>column := ''years''\<rparr>)
       integer_def integer_def ''app'' \<lparr>stdin = [], stdout = []\<rparr>
     = Inr (ChangeField age_moved, \<lparr>stdin = [], stdout = []\<rparr>)
   \<and> column (old_field age_moved) \<noteq> column (new_field age_moved)
   \<and> forwards_code example_env (ChangeField age_moved) = Inl (AttributeError ''triple_to_def'')
   \<and> backwards_code example_env (ChangeField age_moved) = Inl (AttributeError ''triple_to_def'')"
  using ChangeField_code_raises [of str_repr example_eval age_moved]
  by (simp add: example_env_def new_ChangeField_def ChangeField_init_def
      model_type_and_name_def issubclass_def person_def age_required_def age_moved_def)

end
